theory Spec2Isabelle
  imports Complex_Main
begin

section \<open>Value model\<close>

text \<open>
  The repository works on double-precision columns of pandas data frames.  A catalog
  entry is modelled as a real number or one of the three non-finite values; rounding is
  not modelled.  Comparisons follow IEEE 754: every comparison with NaN is false.
  Reference coordinates, separations, tolerances and time stamps are real numbers.
\<close>

datatype fval = Fin real | PInf | NInf | NaN

datatype py_error = ValueError | IndexError | OverflowError | AttributeError

fun isfinite :: "fval \<Rightarrow> bool" where
  "isfinite (Fin x) = True"
| "isfinite PInf = False"
| "isfinite NInf = False"
| "isfinite NaN = False"

text \<open>\<open>a < b\<close> and \<open>a <= b\<close> on floats.\<close>

fun f_less :: "fval \<Rightarrow> fval \<Rightarrow> bool" where
  "f_less (Fin x) (Fin y) = (x < y)"
| "f_less (Fin x) PInf = True"
| "f_less NInf (Fin y) = True"
| "f_less NInf PInf = True"
| "f_less _ _ = False"

fun f_leq :: "fval \<Rightarrow> fval \<Rightarrow> bool" where
  "f_leq (Fin x) (Fin y) = (x \<le> y)"
| "f_leq (Fin x) PInf = True"
| "f_leq NInf (Fin y) = True"
| "f_leq NInf PInf = True"
| "f_leq NInf NInf = True"
| "f_leq PInf PInf = True"
| "f_leq _ _ = False"

text \<open>The numeric value of a finite entry; it is only applied to entries that passed a
  range check, and those are finite.\<close>

fun fin_of :: "fval \<Rightarrow> real" where
  "fin_of (Fin x) = x"
| "fin_of PInf = 0"
| "fin_of NInf = 0"
| "fin_of NaN = 0"

section \<open>Library operations\<close>

text \<open>\<open>np.argmin\<close> and \<open>Series.argmin\<close>: the position of the first occurrence of the
  smallest entry; on an empty sequence they raise \<open>ValueError\<close> (\<open>None\<close> here).\<close>

fun argmin :: "real list \<Rightarrow> nat option" where
  "argmin [] = None"
| "argmin (x # xs) =
     (case argmin xs of
        None \<Rightarrow> Some 0
      | Some j \<Rightarrow> if x \<le> xs ! j then Some 0 else Some (Suc j))"

text \<open>\<open>df.iloc[i]\<close> raises \<open>IndexError\<close> out of range.\<close>

definition iloc :: "'a list \<Rightarrow> nat \<Rightarrow> py_error + 'a" where
  "iloc xs i = (if i < length xs then Inr (xs ! i) else Inl IndexError)"

text \<open>\<open>Series.min()\<close> and \<open>Series.max()\<close>: NaN on an empty column.\<close>

definition series_min :: "real list \<Rightarrow> fval" where
  "series_min xs = (if xs = [] then NaN else Fin (Min (set xs)))"

definition series_max :: "real list \<Rightarrow> fval" where
  "series_max xs = (if xs = [] then NaN else Fin (Max (set xs)))"

text \<open>Python's built-in \<open>min(a, b)\<close> returns \<open>b\<close> if \<open>b < a\<close> and \<open>a\<close> otherwise;
  \<open>int(x)\<close> truncates towards zero and raises on a non-finite argument.\<close>

definition py_min :: "fval \<Rightarrow> fval \<Rightarrow> fval" where
  "py_min a b = (if f_less b a then b else a)"

fun py_int :: "fval \<Rightarrow> py_error + int" where
  "py_int (Fin x) = Inr (if 0 \<le> x then \<lfloor>x\<rfloor> else \<lceil>x\<rceil>)"
| "py_int NaN = Inl ValueError"
| "py_int PInf = Inl OverflowError"
| "py_int NInf = Inl OverflowError"


text \<open>A loop that appends at most one result per element and stops at the first
  exception: \<open>results = []; for x in xs: ...; results.append(r)\<close>.\<close>

fun for_each :: "('a \<Rightarrow> py_error + 'r option) \<Rightarrow> 'a list \<Rightarrow> py_error + 'r list" where
  "for_each body [] = Inr []"
| "for_each body (x # xs) =
     (case body x of
        Inl e \<Rightarrow> Inl e
      | Inr r \<Rightarrow>
          (case for_each body xs of
             Inl e \<Rightarrow> Inl e
           | Inr rs \<Rightarrow> Inr (case r of None \<Rightarrow> rs | Some y \<Rightarrow> y # rs)))"

section \<open>Nearest-object resolution (process_photometry.py)\<close>

record detection =
  ALPHA_J2000 :: fval
  DELTA_J2000 :: fval
  MAG_AUTO :: fval
  MAGERR_AUTO :: fval

text \<open>The great-circle separation in arcseconds is computed by astropy
  (\<open>SkyCoord.separation\<close>); it is a parameter of the model, taking the reference
  position \<open>(ra, dec)\<close> and the position of a detection.\<close>

type_synonym separation = "real \<times> real \<Rightarrow> real \<times> real \<Rightarrow> real"

definition coord_mask :: "detection \<Rightarrow> bool" where
  "coord_mask d \<longleftrightarrow>
     f_leq (Fin (-90)) (DELTA_J2000 d) \<and> f_leq (DELTA_J2000 d) (Fin 90) \<and>
     f_leq (Fin 0) (ALPHA_J2000 d) \<and> f_less (ALPHA_J2000 d) (Fin 360)"

text \<open>\<open>valid_coords = df[mask]\<close>: the rows passing the mask, in catalog order, each with
  its index label in \<open>df\<close> (a \<open>RangeIndex\<close>, so the label is the position).\<close>

definition valid_coords :: "detection list \<Rightarrow> (nat \<times> detection) list" where
  "valid_coords df = filter (\<lambda>(i, d). coord_mask d) (enumerate 0 df)"

definition sky_coord :: "detection \<Rightarrow> real \<times> real" where
  "sky_coord d = (fin_of (ALPHA_J2000 d), fin_of (DELTA_J2000 d))"

definition default_max_distance :: real where
  "default_max_distance = 5.0"

text \<open>\<open>SkyCoord(ra=ra*u.degree, dec=dec*u.degree)\<close> raises \<open>ValueError\<close> for a
  declination outside \<open>[-90, 90]\<close> (astropy's \<open>Latitude\<close>); a right ascension is wrapped
  into range.  The catalog's own \<open>SkyCoord\<close> is built from rows that passed the mask.\<close>

definition find_nearest_object ::
  "separation \<Rightarrow> detection list \<Rightarrow> real \<Rightarrow> real \<Rightarrow> real \<Rightarrow> py_error + (nat \<times> real) option" where
  "find_nearest_object sep df ra dec max_distance =
     (let vc = valid_coords df in
      if length vc = 0 then Inr None
      else if dec < -90 \<or> 90 < dec then Inl ValueError
      else
        let seps = map (\<lambda>(i, d). sep (ra, dec) (sky_coord d)) vc in
        case argmin seps of
          None \<Rightarrow> Inl ValueError
        | Some min_idx \<Rightarrow>
            let min_sep = seps ! min_idx in
            if min_sep > max_distance then Inr None
            else Inr (Some (fst (vc ! min_idx), min_sep)))"

text \<open>The ephemeris table \<open>positions_df\<close> and the lookup of the nearest sample.\<close>

record position =
  pos_MJD :: real
  pos_RA :: real
  pos_DEC :: real

definition find_nearest_mjd_position :: "position list \<Rightarrow> real \<Rightarrow> py_error + real \<times> real" where
  "find_nearest_mjd_position positions_df mjd =
     (case argmin (map (\<lambda>p. \<bar>pos_MJD p - mjd\<bar>) positions_df) of
        None \<Rightarrow> Inl ValueError
      | Some idx \<Rightarrow>
          (case iloc positions_df idx of
             Inl e \<Rightarrow> Inl e
           | Inr p \<Rightarrow> Inr (pos_RA p, pos_DEC p)))"

section \<open>The photometry reducer (process_photometry.py)\<close>

record coords =
  ra :: real
  dec :: real

record objects =
  comp1 :: coords
  comp2 :: coords

text \<open>One entry of \<open>photometry_data\<close>.  \<open>calibration_data\<close> is a dictionary of the
  archive's labels, absent for some entries; only its key \<open>band\<close> is read.  A label is a
  string or JSON's null (\<open>None\<close>).\<close>

record epoch =
  mjd :: real
  df :: "detection list"
  calibration_data :: "(string \<times> string option) list option"

text \<open>\<open>photometry_data\<close> is a dictionary from data id to epoch, iterated in insertion
  order: a list of pairs whose keys are distinct.\<close>

type_synonym photometry_data = "(nat \<times> epoch) list"

record static_result =
  MJD :: real
  TARGET_RA :: fval
  TARGET_DEC :: fval
  TARGET_SEP :: real
  TARGET_MAG :: fval
  TARGET_MAGERR :: fval
  COMP1_MAG :: fval
  COMP2_MAG :: fval

record asteroid_result =
  AST_MJD :: real
  AST_RA :: real
  AST_DEC :: real
  AST_SEP :: real
  AST_MAG :: fval
  AST_MAGERR :: fval
  AST_COMP1_MAG :: fval
  AST_COMP2_MAG :: fval

text \<open>The body of the loop of \<open>process_static_object_photometry\<close>: \<open>Inr None\<close> is
  \<open>continue\<close>.\<close>

definition static_epoch ::
  "separation \<Rightarrow> coords \<Rightarrow> objects \<Rightarrow> epoch \<Rightarrow> py_error + static_result option" where
  "static_epoch sep target_coords comp_stars data =
     (case find_nearest_object sep (df data) (ra target_coords) (dec target_coords)
             default_max_distance of
        Inl e \<Rightarrow> Inl e
      | Inr target \<Rightarrow>
     (case find_nearest_object sep (df data) (ra (comp1 comp_stars)) (dec (comp1 comp_stars))
             default_max_distance of
        Inl e \<Rightarrow> Inl e
      | Inr c1 \<Rightarrow>
     (case find_nearest_object sep (df data) (ra (comp2 comp_stars)) (dec (comp2 comp_stars))
             default_max_distance of
        Inl e \<Rightarrow> Inl e
      | Inr c2 \<Rightarrow>
     (case (target, c1, c2) of
        (Some (target_idx, target_sep), Some (comp1_idx, comp1_sep), Some (comp2_idx, comp2_sep)) \<Rightarrow>
          (case (iloc (df data) target_idx, iloc (df data) comp1_idx, iloc (df data) comp2_idx) of
             (Inr t, Inr r1, Inr r2) \<Rightarrow>
               if \<not> (isfinite (MAG_AUTO t) \<and> isfinite (MAGERR_AUTO t) \<and>
                       isfinite (MAG_AUTO r1) \<and> isfinite (MAG_AUTO r2))
               then Inr None
               else Inr (Some \<lparr>MJD = mjd data,
                                TARGET_RA = ALPHA_J2000 t,
                                TARGET_DEC = DELTA_J2000 t,
                                TARGET_SEP = target_sep,
                                TARGET_MAG = MAG_AUTO t,
                                TARGET_MAGERR = MAGERR_AUTO t,
                                COMP1_MAG = MAG_AUTO r1,
                                COMP2_MAG = MAG_AUTO r2\<rparr>)
           | _ \<Rightarrow> Inl IndexError)
      | _ \<Rightarrow> Inr None))))"

definition process_static_object_photometry ::
  "separation \<Rightarrow> photometry_data \<Rightarrow> coords \<Rightarrow> objects \<Rightarrow> py_error + static_result list" where
  "process_static_object_photometry sep photometry_data target_coords comp_stars =
     for_each (\<lambda>(data_id, data). static_epoch sep target_coords comp_stars data) photometry_data"

text \<open>The body of the loop of \<open>process_asteroid_photometry\<close>, for the sorted ephemeris
  and its extreme time stamps: the coverage check, and the matching that follows it.\<close>

definition asteroid_match ::
  "separation \<Rightarrow> position list \<Rightarrow> objects \<Rightarrow> epoch \<Rightarrow> py_error + asteroid_result option" where
  "asteroid_match sep positions_df objs data =
     (case find_nearest_object sep (df data) (ra (comp1 objs)) (dec (comp1 objs))
             default_max_distance of
        Inl e \<Rightarrow> Inl e
      | Inr c1 \<Rightarrow>
     (case find_nearest_object sep (df data) (ra (comp2 objs)) (dec (comp2 objs))
             default_max_distance of
        Inl e \<Rightarrow> Inl e
      | Inr c2 \<Rightarrow>
     (case (c1, c2) of
        (Some (comp1_idx, comp1_sep), Some (comp2_idx, comp2_sep)) \<Rightarrow>
          (case find_nearest_mjd_position positions_df (mjd data) of
             Inl e \<Rightarrow> Inl e
           | Inr (ast_ra, ast_dec) \<Rightarrow>
               (case find_nearest_object sep (df data) ast_ra ast_dec 20.0 of
                  Inl e \<Rightarrow> Inl e
                | Inr None \<Rightarrow> Inr None
                | Inr (Some (ast_idx, ast_sep)) \<Rightarrow>
                    (case (iloc (df data) ast_idx, iloc (df data) comp1_idx,
                           iloc (df data) comp2_idx) of
                       (Inr a, Inr r1, Inr r2) \<Rightarrow>
                         if \<not> (isfinite (MAG_AUTO a) \<and> isfinite (MAGERR_AUTO a) \<and>
                                 isfinite (MAG_AUTO r1) \<and> isfinite (MAG_AUTO r2))
                         then Inr None
                         else Inr (Some \<lparr>AST_MJD = mjd data,
                                          AST_RA = ast_ra,
                                          AST_DEC = ast_dec,
                                          AST_SEP = ast_sep,
                                          AST_MAG = MAG_AUTO a,
                                          AST_MAGERR = MAGERR_AUTO a,
                                          AST_COMP1_MAG = MAG_AUTO r1,
                                          AST_COMP2_MAG = MAG_AUTO r2\<rparr>)
                     | _ \<Rightarrow> Inl IndexError)))
      | _ \<Rightarrow> Inr None)))"

definition asteroid_epoch ::
  "separation \<Rightarrow> position list \<Rightarrow> fval \<Rightarrow> fval \<Rightarrow> objects \<Rightarrow> epoch
     \<Rightarrow> py_error + asteroid_result option" where
  "asteroid_epoch sep positions_df mjd_min mjd_max objs data =
     (if f_less (Fin (mjd data)) mjd_min \<or> f_less mjd_max (Fin (mjd data)) then Inr None
      else asteroid_match sep positions_df objs data)"

text \<open>\<open>sort_values('MJD')\<close> is modelled by a stable sort; pandas' default sort may order
  rows of equal \<open>MJD\<close> differently.\<close>

definition process_asteroid_photometry ::
  "separation \<Rightarrow> photometry_data \<Rightarrow> position list \<Rightarrow> objects
     \<Rightarrow> py_error + asteroid_result list" where
  "process_asteroid_photometry sep photometry_data positions_df objs =
     (let positions = sort_key pos_MJD positions_df;
          mjd_min = series_min (map pos_MJD positions);
          mjd_max = series_max (map pos_MJD positions)
      in for_each (\<lambda>(data_id, data). asteroid_epoch sep positions mjd_min mjd_max objs data)
           photometry_data)"

section \<open>The band filter (process_photometry.py, app.py)\<close>











section \<open>The measurement table and its transforms\<close>

text \<open>A row of \<open>photometry_results.csv\<close> as read back by the conversion and comparison
  scripts; the reducer writes finite values only.\<close>

record measurement =
  r_MJD :: real
  r_TARGET_MAG :: real
  r_TARGET_MAGERR :: real
  r_COMP1_MAG :: real
  r_COMP2_MAG :: real

subsection \<open>convert_to_diffmag.py\<close>

record diffmag_row =
  JD_UTC :: real
  diff_mag :: real
  error_diff_mag :: real

definition convert_to_differential_magnitude :: "measurement list \<Rightarrow> diffmag_row list" where
  "convert_to_differential_magnitude rows =
     map (\<lambda>r. \<lparr>JD_UTC = r_MJD r + 2400000.5,
                diff_mag = r_TARGET_MAG r - r_COMP1_MAG r,
                error_diff_mag = r_TARGET_MAGERR r\<rparr>) rows"

subsection \<open>convert_to_flux.py\<close>

text \<open>\<open>mag_to_flux\<close> returns the flux alone, or the pair of flux and flux error when a
  magnitude error is given.\<close>

datatype flux_result = Flux real | FluxErr real real

definition mag_to_flux :: "real \<Rightarrow> real option \<Rightarrow> real \<Rightarrow> flux_result" where
  "mag_to_flux mag mag_err reference_flux =
     (let flux = reference_flux * 10 powr (- mag / 2.5) in
      case mag_err of
        Some e \<Rightarrow> FluxErr flux (flux * (ln 10 / 2.5) * e)
      | None \<Rightarrow> Flux flux)"

subsection \<open>compare_photometry.py\<close>

record aij_row =
  aij_JD_UTC :: real
  rel_flux_T1 :: real
  rel_flux_C2 :: real
  rel_flux_C3 :: real

definition other_MJD :: "aij_row \<Rightarrow> real" where
  "other_MJD t = aij_JD_UTC t - 2400000.5"

definition TIME_THRESHOLD :: real where
  "TIME_THRESHOLD = 180.0 / (24 * 3600)"

text \<open>The body of the matching loop.  A matched pair holds the fields of \<open>our_row\<close> and
  of the row of the other table at \<open>min_diff_idx\<close>.\<close>

definition match_row :: "aij_row list \<Rightarrow> measurement \<Rightarrow> py_error + (measurement \<times> aij_row) option" where
  "match_row other our_row =
     (let time_diff = map (\<lambda>t. \<bar>other_MJD t - r_MJD our_row\<bar>) other in
      case argmin time_diff of
        None \<Rightarrow> Inl ValueError
      | Some min_diff_idx \<Rightarrow>
          let min_diff = time_diff ! min_diff_idx in
          if min_diff \<le> TIME_THRESHOLD then
            (case iloc other min_diff_idx of
               Inl e \<Rightarrow> Inl e
             | Inr t \<Rightarrow> Inr (Some (our_row, t)))
          else Inr None)"

definition matching_pairs ::
  "measurement list \<Rightarrow> aij_row list \<Rightarrow> py_error + (measurement \<times> aij_row) list" where
  "matching_pairs results other =
     for_each (match_row (sort_key aij_JD_UTC other)) (sort_key r_MJD results)"

definition compare_time_offset :: "measurement list \<Rightarrow> aij_row list \<Rightarrow> py_error + int" where
  "compare_time_offset results other =
     py_int (py_min (series_min (map r_MJD results)) (series_min (map other_MJD other)))"

definition compare_time_hours :: "int \<Rightarrow> real \<Rightarrow> real" where
  "compare_time_hours time_offset t = (t - of_int time_offset) * 24"

subsection \<open>plot_magnitude_ratios (process_photometry.py)\<close>

definition plot_time_offset :: "measurement list \<Rightarrow> fval" where
  "plot_time_offset results = series_min (map r_MJD results)"

text \<open>The column \<open>TIME_HOURS\<close>; the offset is NaN only for an empty table, whose column
  is empty.\<close>

definition plot_time_hours :: "measurement list \<Rightarrow> real list" where
  "plot_time_hours results =
     (case plot_time_offset results of
        Fin time_offset \<Rightarrow> map (\<lambda>r. (r_MJD r - time_offset) * 24) results
      | _ \<Rightarrow> [])"

section \<open>Notions of the specification\<close>

text \<open>A detection is valid when its declination lies in \<open>[-90, 90]\<close> and its right
  ascension in \<open>[0, 360)\<close>.\<close>

definition valid_detection :: "detection \<Rightarrow> bool" where
  "valid_detection d \<longleftrightarrow>
     (\<exists>a dl. ALPHA_J2000 d = Fin a \<and> DELTA_J2000 d = Fin dl \<and>
        -90 \<le> dl \<and> dl \<le> 90 \<and> 0 \<le> a \<and> a < 360)"

text \<open>A reference declination that astropy accepts.\<close>

definition dec_ok :: "real \<Rightarrow> bool" where
  "dec_ok d \<longleftrightarrow> -90 \<le> d \<and> d \<le> 90"

text \<open>Row \<open>i\<close> is the nearest valid detection to a position: it is valid, no valid row
  is nearer, and every valid row before it is strictly farther.\<close>

definition nearest_valid :: "separation \<Rightarrow> detection list \<Rightarrow> real \<Rightarrow> real \<Rightarrow> nat \<Rightarrow> bool" where
  "nearest_valid sep cat r d i \<longleftrightarrow>
     i < length cat \<and> valid_detection (cat ! i) \<and>
     (\<forall>j<length cat. valid_detection (cat ! j) \<longrightarrow>
        sep (r, d) (sky_coord (cat ! i)) \<le> sep (r, d) (sky_coord (cat ! j))) \<and>
     (\<forall>j<i. valid_detection (cat ! j) \<longrightarrow>
        sep (r, d) (sky_coord (cat ! i)) < sep (r, d) (sky_coord (cat ! j)))"

text \<open>A record is fully populated when its four magnitude fields are finite.\<close>

definition static_finite :: "static_result \<Rightarrow> bool" where
  "static_finite r \<longleftrightarrow>
     isfinite (TARGET_MAG r) \<and> isfinite (TARGET_MAGERR r) \<and>
     isfinite (COMP1_MAG r) \<and> isfinite (COMP2_MAG r)"

definition asteroid_finite :: "asteroid_result \<Rightarrow> bool" where
  "asteroid_finite r \<longleftrightarrow>
     isfinite (AST_MAG r) \<and> isfinite (AST_MAGERR r) \<and>
     isfinite (AST_COMP1_MAG r) \<and> isfinite (AST_COMP2_MAG r)"

text \<open>The four values an epoch contributes are finite: magnitude and magnitude error
  of the target's row, magnitudes of the rows of comp1 and comp2.\<close>

definition rows_finite :: "detection \<Rightarrow> detection \<Rightarrow> detection \<Rightarrow> bool" where
  "rows_finite t r1 r2 \<longleftrightarrow>
     isfinite (MAG_AUTO t) \<and> isfinite (MAGERR_AUTO t) \<and>
     isfinite (MAG_AUTO r1) \<and> isfinite (MAG_AUTO r2)"

text \<open>Some valid detection of the catalog lies within the tolerance of a position.\<close>

definition matched_within :: "separation \<Rightarrow> detection list \<Rightarrow> real \<Rightarrow> real \<Rightarrow> real \<Rightarrow> bool" where
  "matched_within sep cat r d tol \<longleftrightarrow>
     (\<exists>j<length cat. valid_detection (cat ! j) \<and> sep (r, d) (sky_coord (cat ! j)) \<le> tol)"

section \<open>Example data\<close>

text \<open>A stand-in for the separation (the real one is astropy's), and a catalog whose
  first row has an out-of-range declination, whose second and third rows are equally far
  from \<open>(10, 20)\<close>, and whose last row has no right ascension.\<close>

definition example_sep :: separation where
  "example_sep ref p = \<bar>fst ref - fst p\<bar> + \<bar>snd ref - snd p\<bar>"

definition example_catalog :: "detection list" where
  "example_catalog =
     [\<lparr>ALPHA_J2000 = Fin 10, DELTA_J2000 = Fin 95, MAG_AUTO = Fin 11, MAGERR_AUTO = Fin 0.01\<rparr>,
      \<lparr>ALPHA_J2000 = Fin 11, DELTA_J2000 = Fin 20, MAG_AUTO = Fin 12, MAGERR_AUTO = Fin 0.01\<rparr>,
      \<lparr>ALPHA_J2000 = Fin 9, DELTA_J2000 = Fin 20, MAG_AUTO = Fin 13, MAGERR_AUTO = Fin 0.01\<rparr>,
      \<lparr>ALPHA_J2000 = NaN, DELTA_J2000 = Fin 20, MAG_AUTO = Fin 14, MAGERR_AUTO = Fin 0.01\<rparr>]"

text \<open>Three epochs of three detections each, at the positions of the target and of the
  two comparison stars; in the second epoch a comparison star has no magnitude.  The
  ephemeris is given out of time order.\<close>

definition example_row :: "real \<Rightarrow> real \<Rightarrow> fval \<Rightarrow> detection" where
  "example_row a dl m =
     \<lparr>ALPHA_J2000 = Fin a, DELTA_J2000 = Fin dl, MAG_AUTO = m, MAGERR_AUTO = Fin 0.01\<rparr>"

definition good_catalog :: "detection list" where
  "good_catalog =
     [example_row 10 20 (Fin 12), example_row 40 20 (Fin 13), example_row 10 50 (Fin 13.5)]"

definition bad_catalog :: "detection list" where
  "bad_catalog =
     [example_row 10 20 (Fin 12), example_row 40 20 NaN, example_row 10 50 (Fin 13.5)]"

definition example_target :: coords where
  "example_target = \<lparr>ra = 10, dec = 20\<rparr>"

definition example_comps :: objects where
  "example_comps = \<lparr>comp1 = \<lparr>ra = 40, dec = 20\<rparr>, comp2 = \<lparr>ra = 10, dec = 50\<rparr>\<rparr>"

definition example_epoch :: "real \<Rightarrow> detection list \<Rightarrow> string \<Rightarrow> epoch" where
  "example_epoch t cat b = \<lparr>mjd = t, df = cat, calibration_data = Some [(''band'', Some b)]\<rparr>"

definition example_data :: photometry_data where
  "example_data =
     [(1, example_epoch 60000.25 good_catalog ''R''),
      (2, example_epoch 60000.5 bad_catalog ''V''),
      (3, example_epoch 60001 good_catalog ''r'')]"

definition example_positions :: "position list" where
  "example_positions =
     [\<lparr>pos_MJD = 60001, pos_RA = 10, pos_DEC = 21\<rparr>,
      \<lparr>pos_MJD = 60000, pos_RA = 18, pos_DEC = 20\<rparr>]"

text \<open>A measurement at a given time stamp, and a row of the other table a given number of
  seconds after MJD 60000.\<close>

definition example_measurement :: "real \<Rightarrow> measurement" where
  "example_measurement t =
     \<lparr>r_MJD = t, r_TARGET_MAG = 12, r_TARGET_MAGERR = 0.01, r_COMP1_MAG = 13, r_COMP2_MAG = 13.5\<rparr>"

definition example_other :: "real \<Rightarrow> aij_row" where
  "example_other s =
     \<lparr>aij_JD_UTC = 2460000.5 + s / 86400, rel_flux_T1 = 1, rel_flux_C2 = 0.5, rel_flux_C3 = 0.25\<rparr>"

section \<open>Properties of the library operations\<close>

lemma argmin_None_iff: "argmin xs = None \<longleftrightarrow> xs = []"
  by (cases xs) (auto split: option.splits)

lemma argmin_props:
  "argmin xs = Some i \<Longrightarrow>
     i < length xs \<and> (\<forall>j<length xs. xs ! i \<le> xs ! j) \<and> (\<forall>j<i. xs ! i < xs ! j)"
proof (induction xs arbitrary: i)
  case Nil
  then show ?case by simp
next
  case (Cons x xs)
  show ?case
  proof (cases "argmin xs")
    case None
    then have "xs = []" by (simp add: argmin_None_iff)
    with Cons.prems show ?thesis by simp
  next
    case (Some k)
    note IH = Cons.IH [OF Some]
    show ?thesis
    proof (cases "x \<le> xs ! k")
      case True
      with Some Cons.prems have i0: "i = 0" by simp
      have "\<forall>j<length (x # xs). (x # xs) ! i \<le> (x # xs) ! j"
      proof (intro allI impI)
        fix j assume "j < length (x # xs)"
        then show "(x # xs) ! i \<le> (x # xs) ! j"
          using IH True i0 by (cases j) (auto intro: order_trans)
      qed
      with i0 show ?thesis by simp
    next
      case False
      with Some Cons.prems have ik: "i = Suc k" by simp
      have a: "\<forall>j<length (x # xs). (x # xs) ! i \<le> (x # xs) ! j"
      proof (intro allI impI)
        fix j assume "j < length (x # xs)"
        then show "(x # xs) ! i \<le> (x # xs) ! j"
          using IH False ik by (cases j) auto
      qed
      have b: "\<forall>j<i. (x # xs) ! i < (x # xs) ! j"
      proof (intro allI impI)
        fix j assume "j < i"
        then show "(x # xs) ! i < (x # xs) ! j"
          using IH False ik by (cases j) auto
      qed
      from a b ik IH show ?thesis by simp
    qed
  qed
qed

section \<open>Nearest-object resolution\<close>

lemma coord_mask_iff: "coord_mask d \<longleftrightarrow> valid_detection d"
  unfolding coord_mask_def valid_detection_def
  by (cases "ALPHA_J2000 d"; cases "DELTA_J2000 d") auto

lemma valid_coords_set:
  "(i, d) \<in> set (valid_coords cat) \<longleftrightarrow> i < length cat \<and> d = cat ! i \<and> coord_mask d"
  by (auto simp: valid_coords_def in_set_enumerate_eq)

lemma valid_coords_sorted: "sorted_wrt (\<lambda>a b. fst a < fst b) (valid_coords cat)"
proof -
  have "sorted_wrt (<) (map fst (enumerate 0 cat))"
    by (simp add: map_fst_enumerate)
  then have "sorted_wrt (\<lambda>a b. fst a < fst b) (enumerate 0 cat)"
    unfolding sorted_wrt_map .
  then show ?thesis
    unfolding valid_coords_def by (rule sorted_wrt_filter)
qed

lemma valid_coords_nth:
  assumes "k < length (valid_coords cat)"
  shows "fst (valid_coords cat ! k) < length cat \<and>
         snd (valid_coords cat ! k) = cat ! fst (valid_coords cat ! k) \<and>
         coord_mask (cat ! fst (valid_coords cat ! k))"
proof -
  have "valid_coords cat ! k \<in> set (valid_coords cat)"
    using assms by simp
  then have "(fst (valid_coords cat ! k), snd (valid_coords cat ! k)) \<in> set (valid_coords cat)"
    by simp
  then show ?thesis
    unfolding valid_coords_set by auto
qed

lemma valid_coords_index:
  assumes "j < length cat" and "coord_mask (cat ! j)"
  obtains l where "l < length (valid_coords cat)" and "valid_coords cat ! l = (j, cat ! j)"
proof -
  have "(j, cat ! j) \<in> set (valid_coords cat)"
    using assms by (simp add: valid_coords_set)
  then show ?thesis
    using that by (auto simp: in_set_conv_nth)
qed

lemma nearest_unfold:
  assumes "valid_coords cat \<noteq> []" and "dec_ok d"
  shows "find_nearest_object sep cat r d m =
     (case argmin (map (\<lambda>(i, x). sep (r, d) (sky_coord x)) (valid_coords cat)) of
        None \<Rightarrow> Inl ValueError
      | Some k \<Rightarrow>
          if m < map (\<lambda>(i, x). sep (r, d) (sky_coord x)) (valid_coords cat) ! k then Inr None
          else Inr (Some (fst (valid_coords cat ! k),
                 map (\<lambda>(i, x). sep (r, d) (sky_coord x)) (valid_coords cat) ! k)))"
  using assms unfolding find_nearest_object_def dec_ok_def Let_def by (simp add: not_less)

lemma nearest_empty:
  "valid_coords cat = [] \<Longrightarrow> find_nearest_object sep cat r d m = Inr None"
  by (simp add: find_nearest_object_def)

lemma nearest_raises:
  "valid_coords cat \<noteq> [] \<Longrightarrow> \<not> dec_ok d \<Longrightarrow> find_nearest_object sep cat r d m = Inl ValueError"
  by (auto simp: find_nearest_object_def dec_ok_def Let_def)

lemma valid_coords_empty_iff:
  "valid_coords cat = [] \<longleftrightarrow> (\<forall>j<length cat. \<not> coord_mask (cat ! j))"
  unfolding valid_coords_def filter_empty_conv
  by (auto simp: in_set_enumerate_eq)

lemma nearest_Some_props:
  assumes "find_nearest_object sep cat r d m = Inr (Some (i, s))"
  shows "i < length cat \<and> coord_mask (cat ! i) \<and> s = sep (r, d) (sky_coord (cat ! i)) \<and> s \<le> m \<and>
         (\<forall>j<length cat. coord_mask (cat ! j) \<longrightarrow> s \<le> sep (r, d) (sky_coord (cat ! j))) \<and>
         (\<forall>j<i. coord_mask (cat ! j) \<longrightarrow> s < sep (r, d) (sky_coord (cat ! j)))"
proof -
  define vc where "vc = valid_coords cat"
  define seps where "seps = map (\<lambda>(i, x). sep (r, d) (sky_coord x)) vc"
  have ne: "valid_coords cat \<noteq> []"
    using assms nearest_empty [of cat sep r d m] by auto
  have ok: "dec_ok d"
    using assms nearest_raises [OF ne, of d sep r m] by auto
  from assms obtain k where k: "argmin seps = Some k"
    and le: "\<not> seps ! k > m" and res: "i = fst (vc ! k)" "s = seps ! k"
    unfolding nearest_unfold [OF ne ok] vc_def seps_def
    by (auto split: if_splits option.splits)
  have len: "length seps = length vc" by (simp add: seps_def)
  from argmin_props [OF k] have kl: "k < length vc"
    and kmin: "\<forall>l<length vc. seps ! k \<le> seps ! l"
    and kfirst: "\<forall>l<k. seps ! k < seps ! l"
    unfolding len by blast+
  have sepn: "seps ! l = sep (r, d) (sky_coord (snd (vc ! l)))" if "l < length vc" for l
    using that by (simp add: seps_def case_prod_beta)
  from valid_coords_nth [of k cat] kl res
  have i1: "i < length cat" and i2: "snd (vc ! k) = cat ! i" and i3: "coord_mask (cat ! i)"
    by (simp_all add: vc_def)
  have s1: "s = sep (r, d) (sky_coord (cat ! i))"
    using res sepn [OF kl] i2 by simp
  have all: "s \<le> sep (r, d) (sky_coord (cat ! j))" if "j < length cat" "coord_mask (cat ! j)" for j
  proof -
    from valid_coords_index [OF that] obtain l
      where l: "l < length vc" "vc ! l = (j, cat ! j)" by (auto simp: vc_def)
    from kmin l(1) have "seps ! k \<le> seps ! l" by blast
    moreover have "seps ! l = sep (r, d) (sky_coord (cat ! j))"
      using sepn [OF l(1)] l(2) by simp
    ultimately show ?thesis using res(2) by simp
  qed
  have first: "s < sep (r, d) (sky_coord (cat ! j))" if "j < i" "coord_mask (cat ! j)" for j
  proof -
    from that i1 have "j < length cat" by simp
    from valid_coords_index [OF this that(2)] obtain l
      where l: "l < length vc" "vc ! l = (j, cat ! j)" by (auto simp: vc_def)
    have "l < k"
    proof (rule ccontr)
      assume "\<not> l < k"
      then have "k = l \<or> k < l" by auto
      then have "fst (vc ! k) \<le> fst (vc ! l)"
        using valid_coords_sorted [of cat] l(1) kl
        by (auto simp: vc_def sorted_wrt_iff_nth_less less_imp_le)
      with l(2) res that(1) show False by simp
    qed
    with kfirst have "seps ! k < seps ! l" by blast
    moreover have "seps ! l = sep (r, d) (sky_coord (cat ! j))"
      using sepn [OF l(1)] l(2) by simp
    ultimately show ?thesis using res(2) by simp
  qed
  from le res(2) have sm: "s \<le> m" by simp
  from i1 i3 s1 sm all first show ?thesis by blast
qed

lemma nearest_no_error:
  assumes "dec_ok d"
  shows "find_nearest_object sep cat r d m \<noteq> Inl e"
proof (cases "valid_coords cat = []")
  case True
  then show ?thesis by (simp add: nearest_empty)
next
  case False
  then have "map (\<lambda>(i, x). sep (r, d) (sky_coord x)) (valid_coords cat) \<noteq> []" by simp
  then obtain k where "argmin (map (\<lambda>(i, x). sep (r, d) (sky_coord x)) (valid_coords cat)) = Some k"
    using argmin_None_iff [of "map (\<lambda>(i, x). sep (r, d) (sky_coord x)) (valid_coords cat)"]
    by (cases "argmin (map (\<lambda>(i, x). sep (r, d) (sky_coord x)) (valid_coords cat))") auto
  then show ?thesis
    unfolding nearest_unfold [OF False assms] by simp
qed

lemma nearest_None_char:
  assumes "dec_ok d"
  shows "find_nearest_object sep cat r d m = Inr None \<longleftrightarrow>
     (\<forall>j<length cat. coord_mask (cat ! j) \<longrightarrow> m < sep (r, d) (sky_coord (cat ! j)))"
proof
  assume none: "find_nearest_object sep cat r d m = Inr None"
  define vc where "vc = valid_coords cat"
  define seps where "seps = map (\<lambda>(i, x). sep (r, d) (sky_coord x)) vc"
  show "\<forall>j<length cat. coord_mask (cat ! j) \<longrightarrow> m < sep (r, d) (sky_coord (cat ! j))"
  proof (intro allI impI)
    fix j assume j: "j < length cat" "coord_mask (cat ! j)"
    from valid_coords_index [OF j] obtain l
      where l: "l < length vc" "vc ! l = (j, cat ! j)" by (auto simp: vc_def)
    then have ne: "valid_coords cat \<noteq> []" by (auto simp: vc_def)
    then have "seps \<noteq> []" by (simp add: seps_def vc_def)
    then obtain k where k: "argmin seps = Some k"
      using argmin_None_iff [of seps] by (cases "argmin seps") auto
    from none k have gt: "m < seps ! k"
      unfolding nearest_unfold [OF ne assms] vc_def [symmetric] seps_def [symmetric]
      by (simp split: if_splits)
    have len: "length seps = length vc" by (simp add: seps_def)
    from argmin_props [OF k] l(1) have "seps ! k \<le> seps ! l" unfolding len by blast
    moreover have "seps ! l = sep (r, d) (sky_coord (cat ! j))"
      using l by (simp add: seps_def)
    ultimately show "m < sep (r, d) (sky_coord (cat ! j))" using gt by simp
  qed
next
  assume far: "\<forall>j<length cat. coord_mask (cat ! j) \<longrightarrow> m < sep (r, d) (sky_coord (cat ! j))"
  show "find_nearest_object sep cat r d m = Inr None"
  proof (cases "find_nearest_object sep cat r d m")
    case (Inl e)
    with nearest_no_error [OF assms] show ?thesis by blast
  next
    case (Inr v)
    show ?thesis
    proof (cases v)
      case None
      with Inr show ?thesis by simp
    next
      case (Some p)
      obtain i s where "p = (i, s)" by (cases p)
      with Inr Some nearest_Some_props [of sep cat r d m i s] far
      show ?thesis by force
    qed
  qed
qed

lemma nearest_valid_unique:
  assumes "nearest_valid sep cat r d i" and "nearest_valid sep cat r d i'"
  shows "i = i'"
proof (rule ccontr)
  assume "i \<noteq> i'"
  then consider "i < i'" | "i' < i" by (cases i i' rule: linorder_cases) auto
  then show False
  proof cases
    case 1
    with assms have "sep (r, d) (sky_coord (cat ! i')) < sep (r, d) (sky_coord (cat ! i))"
      and "sep (r, d) (sky_coord (cat ! i)) \<le> sep (r, d) (sky_coord (cat ! i'))"
      unfolding nearest_valid_def by blast+
    then show False by simp
  next
    case 2
    with assms have "sep (r, d) (sky_coord (cat ! i)) < sep (r, d) (sky_coord (cat ! i'))"
      and "sep (r, d) (sky_coord (cat ! i')) \<le> sep (r, d) (sky_coord (cat ! i))"
      unfolding nearest_valid_def by blast+
    then show False by simp
  qed
qed

lemma nearest_iff:
  assumes "dec_ok d"
  shows "find_nearest_object sep cat r d m = Inr (Some (i, s)) \<longleftrightarrow>
     nearest_valid sep cat r d i \<and> s = sep (r, d) (sky_coord (cat ! i)) \<and> s \<le> m"
proof
  assume "find_nearest_object sep cat r d m = Inr (Some (i, s))"
  from nearest_Some_props [OF this]
  show "nearest_valid sep cat r d i \<and> s = sep (r, d) (sky_coord (cat ! i)) \<and> s \<le> m"
    unfolding nearest_valid_def coord_mask_iff by blast
next
  assume rhs: "nearest_valid sep cat r d i \<and> s = sep (r, d) (sky_coord (cat ! i)) \<and> s \<le> m"
  then have "\<not> (\<forall>j<length cat. coord_mask (cat ! j) \<longrightarrow> m < sep (r, d) (sky_coord (cat ! j)))"
    unfolding nearest_valid_def coord_mask_iff by (auto simp: not_less)
  then have "find_nearest_object sep cat r d m \<noteq> Inr None"
    using nearest_None_char [OF assms] by blast
  with nearest_no_error [OF assms, of sep cat r m]
  obtain i' s' where some: "find_nearest_object sep cat r d m = Inr (Some (i', s'))"
    by (cases "find_nearest_object sep cat r d m") auto
  from nearest_Some_props [OF some]
  have nv: "nearest_valid sep cat r d i'" and s': "s' = sep (r, d) (sky_coord (cat ! i'))"
    unfolding nearest_valid_def coord_mask_iff by blast+
  from nearest_valid_unique [OF nv] rhs have "i' = i" by blast
  with some s' rhs show "find_nearest_object sep cat r d m = Inr (Some (i, s))" by simp
qed

lemma example_valid_coords:
  "valid_coords example_catalog = [(1, example_catalog ! 1), (2, example_catalog ! 2)]"
  by (simp add: valid_coords_def example_catalog_def enumerate_eq_zip coord_mask_def upt_rec)

lemma valid_good: "valid_coords good_catalog = enumerate 0 good_catalog"
  by (simp add: valid_coords_def good_catalog_def example_row_def coord_mask_def)

lemma valid_bad: "valid_coords bad_catalog = enumerate 0 bad_catalog"
  by (simp add: valid_coords_def bad_catalog_def example_row_def coord_mask_def)

lemma nearest_good:
  "find_nearest_object example_sep good_catalog 10 20 5 = Inr (Some (0, 0))"
  "find_nearest_object example_sep good_catalog 40 20 5 = Inr (Some (1, 0))"
  "find_nearest_object example_sep good_catalog 10 50 5 = Inr (Some (2, 0))"
  "find_nearest_object example_sep good_catalog 18 20 20 = Inr (Some (0, 8))"
  "find_nearest_object example_sep good_catalog 18 20 5 = Inr None"
  "find_nearest_object example_sep good_catalog 10 21 20 = Inr (Some (0, 1))"
  "find_nearest_object example_sep good_catalog 10 95 5 = Inl ValueError"
  by (simp_all add: find_nearest_object_def valid_good)
     (simp_all add: good_catalog_def example_row_def example_sep_def sky_coord_def)

lemma nearest_bad:
  "find_nearest_object example_sep bad_catalog 10 20 5 = Inr (Some (0, 0))"
  "find_nearest_object example_sep bad_catalog 40 20 5 = Inr (Some (1, 0))"
  "find_nearest_object example_sep bad_catalog 10 50 5 = Inr (Some (2, 0))"
  "find_nearest_object example_sep bad_catalog 18 20 20 = Inr (Some (0, 8))"
  by (simp_all add: find_nearest_object_def valid_bad)
     (simp_all add: bad_catalog_def example_row_def example_sep_def sky_coord_def)

text \<open>
  Claim C1.  For a reference declination in \<open>[-90, 90]\<close>, \<open>find_nearest_object\<close> returns
  the match \<open>(i, s)\<close> exactly when row \<open>i\<close> is a valid detection of the catalog
  (declination in \<open>[-90, 90]\<close>, right ascension in \<open>[0, 360)\<close>), \<open>s\<close> is its separation
  from the reference coordinate and is at most \<open>max_distance\<close>, no valid detection is
  nearer, and every valid detection earlier in the catalog is strictly farther.  So the
  nearest valid detection is selected, among equal minimal separations the first in
  catalog order, and invalid rows play no part.
\<close>

theorem find_nearest_object_first_minimum:
  assumes "dec_ok d"
  shows "find_nearest_object sep cat r d m = Inr (Some (i, s)) \<longleftrightarrow>
         i < length cat \<and> valid_detection (cat ! i) \<and> s = sep (r, d) (sky_coord (cat ! i)) \<and>
         s \<le> m \<and>
         (\<forall>j<length cat. valid_detection (cat ! j) \<longrightarrow> s \<le> sep (r, d) (sky_coord (cat ! j))) \<and>
         (\<forall>j<i. valid_detection (cat ! j) \<longrightarrow> s < sep (r, d) (sky_coord (cat ! j)))"
  unfolding nearest_iff [OF assms] nearest_valid_def by blast

theorem find_nearest_object_first_minimum_witness:
  "dec_ok 20 \<and>
   find_nearest_object example_sep good_catalog 40 20 5 = Inr (Some (1, 0)) \<and>
   find_nearest_object example_sep example_catalog 10 20 5 = Inr (Some (1, 1)) \<and>
   valid_detection (example_catalog ! 1) \<and>
   valid_detection (example_catalog ! 2) \<and>
   \<not> valid_detection (example_catalog ! 0) \<and>
   example_sep (10, 20) (sky_coord (example_catalog ! 0)) = 75 \<and>
   example_sep (10, 20) (sky_coord (example_catalog ! 1)) = 1 \<and>
   example_sep (10, 20) (sky_coord (example_catalog ! 2)) = 1"
proof -
  have ok: "dec_ok 20" by (simp add: dec_ok_def)
  have len: "length good_catalog = 3" by (simp add: good_catalog_def)
  have rows: "valid_detection (good_catalog ! 1)"
    "example_sep (40, 20) (sky_coord (good_catalog ! 0)) = 30"
    "example_sep (40, 20) (sky_coord (good_catalog ! 1)) = 0"
    "example_sep (40, 20) (sky_coord (good_catalog ! 2)) = 60"
    by (simp_all add: good_catalog_def example_row_def example_sep_def sky_coord_def
        valid_detection_def)
  have all: "\<forall>j<length good_catalog. valid_detection (good_catalog ! j) \<longrightarrow>
      0 \<le> example_sep (40, 20) (sky_coord (good_catalog ! j))"
    by (simp add: example_sep_def)
  have before: "\<forall>j<(1::nat). valid_detection (good_catalog ! j) \<longrightarrow>
      0 < example_sep (40, 20) (sky_coord (good_catalog ! j))"
    using rows(2) by simp
  have a: "find_nearest_object example_sep good_catalog 40 20 5 = Inr (Some (1, 0))"
    unfolding find_nearest_object_first_minimum [OF ok]
    using len rows all before by simp
  have e: "find_nearest_object example_sep example_catalog 10 20 5 = Inr (Some (1, 1))"
    by (simp add: find_nearest_object_def example_valid_coords)
       (simp add: example_catalog_def example_sep_def sky_coord_def)
  have v: "valid_detection (example_catalog ! 2)" "\<not> valid_detection (example_catalog ! 0)"
    by (simp_all add: valid_detection_def example_catalog_def)
  have s: "example_sep (10, 20) (sky_coord (example_catalog ! 0)) = 75"
    "example_sep (10, 20) (sky_coord (example_catalog ! 2)) = 1"
    by (simp_all add: example_catalog_def example_sep_def sky_coord_def)
  from e have "valid_detection (example_catalog ! 1) \<and>
      1 = example_sep (10, 20) (sky_coord (example_catalog ! 1))"
    unfolding find_nearest_object_first_minimum [OF ok] by blast
  with ok a e v s show ?thesis by simp
qed

text \<open>
  Claim C2.  For a reference declination in \<open>[-90, 90]\<close>, \<open>find_nearest_object\<close> never
  raises, and it returns no match if and only if every valid detection is strictly
  farther than \<open>max_distance\<close> from the reference coordinate, which includes a catalog
  with no valid detection; a nearest detection at exactly \<open>max_distance\<close> is therefore
  returned.  For a declination outside that range it raises \<open>ValueError\<close> when the
  catalog has a valid detection, and returns no match when it has none.
\<close>

theorem find_nearest_object_none_iff:
  "(dec_ok d \<longrightarrow>
      (find_nearest_object sep cat r d m = Inr None \<longleftrightarrow>
         (\<forall>j<length cat. valid_detection (cat ! j) \<longrightarrow> m < sep (r, d) (sky_coord (cat ! j)))) \<and>
      (\<forall>e. find_nearest_object sep cat r d m \<noteq> Inl e)) \<and>
   (\<not> dec_ok d \<longrightarrow>
      find_nearest_object sep cat r d m =
        (if \<exists>j<length cat. valid_detection (cat ! j) then Inl ValueError else Inr None))"
proof (intro conjI impI allI)
  assume ok: "dec_ok d"
  show "find_nearest_object sep cat r d m = Inr None \<longleftrightarrow>
         (\<forall>j<length cat. valid_detection (cat ! j) \<longrightarrow> m < sep (r, d) (sky_coord (cat ! j)))"
    unfolding nearest_None_char [OF ok] coord_mask_iff ..
  show "find_nearest_object sep cat r d m \<noteq> Inl e" for e
    by (rule nearest_no_error [OF ok])
next
  assume bad: "\<not> dec_ok d"
  show "find_nearest_object sep cat r d m =
        (if \<exists>j<length cat. valid_detection (cat ! j) then Inl ValueError else Inr None)"
  proof (cases "valid_coords cat = []")
    case True
    then show ?thesis
      using nearest_empty [OF True] unfolding valid_coords_empty_iff coord_mask_iff by auto
  next
    case False
    then show ?thesis
      using nearest_raises [OF False bad] unfolding valid_coords_empty_iff coord_mask_iff by auto
  qed
qed

theorem find_nearest_object_none_iff_witness:
  "find_nearest_object example_sep example_catalog 10 20 (1/2) = Inr None \<and>
   find_nearest_object example_sep example_catalog 10 20 1 \<noteq> Inr None \<and>
   find_nearest_object example_sep [] 10 20 1 = Inr None \<and>
   find_nearest_object example_sep example_catalog 10 95 1 = Inl ValueError \<and>
   find_nearest_object example_sep [] 10 95 1 = Inr None"
proof -
  have ok: "dec_ok 20" and bad: "\<not> dec_ok 95" by (simp_all add: dec_ok_def)
  have len: "length example_catalog = 4" by (simp add: example_catalog_def)
  have far: "\<forall>j<length example_catalog. valid_detection (example_catalog ! j) \<longrightarrow>
      1/2 < example_sep (10, 20) (sky_coord (example_catalog ! j))"
    unfolding len
    by (simp add: example_catalog_def example_sep_def sky_coord_def valid_detection_def
        numeral_nat less_Suc_eq all_conj_distrib)
  have a: "find_nearest_object example_sep example_catalog 10 20 (1/2) = Inr None"
    using far ok find_nearest_object_none_iff [of 20 example_sep example_catalog 10 "1/2"] by blast
  have v1: "valid_detection (example_catalog ! 1)"
    "\<not> 1 < example_sep (10, 20) (sky_coord (example_catalog ! 1))"
    by (simp_all add: example_catalog_def example_sep_def sky_coord_def valid_detection_def)
  have "\<not> (\<forall>j<length example_catalog. valid_detection (example_catalog ! j) \<longrightarrow>
      1 < example_sep (10, 20) (sky_coord (example_catalog ! j)))"
  proof
    assume "\<forall>j<length example_catalog. valid_detection (example_catalog ! j) \<longrightarrow>
      1 < example_sep (10, 20) (sky_coord (example_catalog ! j))"
    then have "valid_detection (example_catalog ! 1) \<longrightarrow>
      1 < example_sep (10, 20) (sky_coord (example_catalog ! 1))"
      unfolding len by simp
    with v1 show False by blast
  qed
  then have b: "find_nearest_object example_sep example_catalog 10 20 1 \<noteq> Inr None"
    using ok find_nearest_object_none_iff [of 20 example_sep example_catalog 10 1] by blast
  have c: "find_nearest_object example_sep [] 10 20 1 = Inr None"
    using ok find_nearest_object_none_iff [of 20 example_sep "[]" 10 1] by simp
  have "\<exists>j<length example_catalog. valid_detection (example_catalog ! j)"
    using v1(1) len by (intro exI [of _ 1]) simp
  then have d: "find_nearest_object example_sep example_catalog 10 95 1 = Inl ValueError"
    using bad find_nearest_object_none_iff [of 95 example_sep example_catalog 10 1] by simp
  have e: "find_nearest_object example_sep [] 10 95 1 = Inr None"
    using bad find_nearest_object_none_iff [of 95 example_sep "[]" 10 1] by simp
  from a b c d e show ?thesis by blast
qed

section \<open>The photometry reducer\<close>

lemma for_each_member:
  "for_each body xs = Inr rs \<Longrightarrow> r \<in> set rs \<Longrightarrow> \<exists>x\<in>set xs. body x = Inr (Some r)"
proof (induction xs arbitrary: rs)
  case Nil
  then show ?case by simp
next
  case (Cons x xs)
  then show ?case
    by (auto split: sum.splits option.splits)
qed

lemma for_each_length: "for_each body xs = Inr rs \<Longrightarrow> length rs \<le> length xs"
proof (induction xs arbitrary: rs)
  case Nil
  then show ?case by simp
next
  case (Cons x xs)
  then show ?case
    by (fastforce split: sum.splits option.splits)
qed

lemma for_each_total:
  "(\<forall>x\<in>set xs. \<exists>r. body x = Inr r) \<Longrightarrow> \<exists>rs. for_each body xs = Inr rs"
  by (induction xs) (auto split: sum.splits)

lemma for_each_filter:
  "(\<forall>x\<in>set xs. \<not> P x \<longrightarrow> body x = Inr None) \<Longrightarrow> for_each body (filter P xs) = for_each body xs"
  by (induction xs) (auto split: sum.splits)

lemma nearest_index: "find_nearest_object sep cat r d m = Inr (Some (i, s)) \<Longrightarrow> i < length cat"
  using nearest_Some_props by blast

lemma nearest_total:
  assumes "dec_ok d"
  shows "\<exists>v. find_nearest_object sep cat r d m = Inr v"
  using nearest_no_error [OF assms, of sep cat r m]
  by (cases "find_nearest_object sep cat r d m") auto

lemma nearest_matched:
  assumes "dec_ok d"
  shows "(\<exists>i s. find_nearest_object sep cat r d m = Inr (Some (i, s))) \<longleftrightarrow>
     matched_within sep cat r d m"
proof -
  have "(\<exists>i s. find_nearest_object sep cat r d m = Inr (Some (i, s))) \<longleftrightarrow>
      find_nearest_object sep cat r d m \<noteq> Inr None"
    using nearest_total [OF assms, of sep cat r m] by force
  also have "\<dots> \<longleftrightarrow> matched_within sep cat r d m"
    unfolding nearest_None_char [OF assms] matched_within_def coord_mask_iff
    by (auto simp: not_less)
  finally show ?thesis .
qed

lemma static_epoch_emits:
  assumes "find_nearest_object sep (df data) (ra tc) (dec tc) 5 = Inr (Some (ti, ts))"
    and "find_nearest_object sep (df data) (ra (comp1 cs)) (dec (comp1 cs)) 5 = Inr (Some (c1, s1))"
    and "find_nearest_object sep (df data) (ra (comp2 cs)) (dec (comp2 cs)) 5 = Inr (Some (c2, s2))"
  shows "static_epoch sep tc cs data =
     (if rows_finite (df data ! ti) (df data ! c1) (df data ! c2)
      then Inr (Some \<lparr>MJD = mjd data,
             TARGET_RA = ALPHA_J2000 (df data ! ti), TARGET_DEC = DELTA_J2000 (df data ! ti),
             TARGET_SEP = ts,
             TARGET_MAG = MAG_AUTO (df data ! ti), TARGET_MAGERR = MAGERR_AUTO (df data ! ti),
             COMP1_MAG = MAG_AUTO (df data ! c1), COMP2_MAG = MAG_AUTO (df data ! c2)\<rparr>)
      else Inr None)"
  using assms nearest_index [OF assms(1)] nearest_index [OF assms(2)] nearest_index [OF assms(3)]
  by (simp add: static_epoch_def default_max_distance_def iloc_def rows_finite_def)

lemma static_epoch_Some:
  assumes "static_epoch sep tc cs data = Inr (Some r)"
  shows "\<exists>ti ts c1 s1 c2 s2.
      find_nearest_object sep (df data) (ra tc) (dec tc) 5 = Inr (Some (ti, ts)) \<and>
      find_nearest_object sep (df data) (ra (comp1 cs)) (dec (comp1 cs)) 5 = Inr (Some (c1, s1)) \<and>
      find_nearest_object sep (df data) (ra (comp2 cs)) (dec (comp2 cs)) 5 = Inr (Some (c2, s2))"
  using assms unfolding static_epoch_def default_max_distance_def
  by (auto split: option.splits prod.splits sum.splits if_splits)

lemma static_epoch_iff:
  "static_epoch sep tc cs data = Inr (Some r) \<longleftrightarrow>
     (\<exists>ti ts c1 s1 c2 s2.
        find_nearest_object sep (df data) (ra tc) (dec tc) 5 = Inr (Some (ti, ts)) \<and>
        find_nearest_object sep (df data) (ra (comp1 cs)) (dec (comp1 cs)) 5 = Inr (Some (c1, s1)) \<and>
        find_nearest_object sep (df data) (ra (comp2 cs)) (dec (comp2 cs)) 5 = Inr (Some (c2, s2)) \<and>
        rows_finite (df data ! ti) (df data ! c1) (df data ! c2) \<and>
        r = \<lparr>MJD = mjd data,
             TARGET_RA = ALPHA_J2000 (df data ! ti), TARGET_DEC = DELTA_J2000 (df data ! ti),
             TARGET_SEP = ts,
             TARGET_MAG = MAG_AUTO (df data ! ti), TARGET_MAGERR = MAGERR_AUTO (df data ! ti),
             COMP1_MAG = MAG_AUTO (df data ! c1), COMP2_MAG = MAG_AUTO (df data ! c2)\<rparr>)"
  (is "?L \<longleftrightarrow> ?R")
proof
  assume l: ?L
  from static_epoch_Some [OF l] obtain ti ts c1 s1 c2 s2 where
    n: "find_nearest_object sep (df data) (ra tc) (dec tc) 5 = Inr (Some (ti, ts))"
      "find_nearest_object sep (df data) (ra (comp1 cs)) (dec (comp1 cs)) 5 = Inr (Some (c1, s1))"
      "find_nearest_object sep (df data) (ra (comp2 cs)) (dec (comp2 cs)) 5 = Inr (Some (c2, s2))"
    by blast
  from l static_epoch_emits [OF n]
  have "rows_finite (df data ! ti) (df data ! c1) (df data ! c2) \<and>
        r = \<lparr>MJD = mjd data,
             TARGET_RA = ALPHA_J2000 (df data ! ti), TARGET_DEC = DELTA_J2000 (df data ! ti),
             TARGET_SEP = ts,
             TARGET_MAG = MAG_AUTO (df data ! ti), TARGET_MAGERR = MAGERR_AUTO (df data ! ti),
             COMP1_MAG = MAG_AUTO (df data ! c1), COMP2_MAG = MAG_AUTO (df data ! c2)\<rparr>"
    by (auto split: if_splits)
  with n show ?R by blast
next
  assume ?R
  then obtain ti ts c1 s1 c2 s2 where
    n: "find_nearest_object sep (df data) (ra tc) (dec tc) 5 = Inr (Some (ti, ts))"
      "find_nearest_object sep (df data) (ra (comp1 cs)) (dec (comp1 cs)) 5 = Inr (Some (c1, s1))"
      "find_nearest_object sep (df data) (ra (comp2 cs)) (dec (comp2 cs)) 5 = Inr (Some (c2, s2))"
    and f: "rows_finite (df data ! ti) (df data ! c1) (df data ! c2)"
    and r: "r = \<lparr>MJD = mjd data,
             TARGET_RA = ALPHA_J2000 (df data ! ti), TARGET_DEC = DELTA_J2000 (df data ! ti),
             TARGET_SEP = ts,
             TARGET_MAG = MAG_AUTO (df data ! ti), TARGET_MAGERR = MAGERR_AUTO (df data ! ti),
             COMP1_MAG = MAG_AUTO (df data ! c1), COMP2_MAG = MAG_AUTO (df data ! c2)\<rparr>"
    by blast
  from static_epoch_emits [OF n] f r show ?L by simp
qed

lemma static_epoch_finite: "static_epoch sep tc cs data = Inr (Some r) \<Longrightarrow> static_finite r"
  unfolding static_epoch_iff by (auto simp: static_finite_def rows_finite_def)

lemma static_epoch_total:
  assumes "dec_ok (dec tc)" and "dec_ok (dec (comp1 cs))" and "dec_ok (dec (comp2 cs))"
  shows "\<exists>v. static_epoch sep tc cs data = Inr v"
proof -
  from nearest_total [OF assms(1)] obtain t
    where t: "find_nearest_object sep (df data) (ra tc) (dec tc) 5 = Inr t" by blast
  from nearest_total [OF assms(2)] obtain u
    where u: "find_nearest_object sep (df data) (ra (comp1 cs)) (dec (comp1 cs)) 5 = Inr u" by blast
  from nearest_total [OF assms(3)] obtain w
    where w: "find_nearest_object sep (df data) (ra (comp2 cs)) (dec (comp2 cs)) 5 = Inr w" by blast
  show ?thesis
  proof (cases "\<exists>ti ts c1 s1 c2 s2. t = Some (ti, ts) \<and> u = Some (c1, s1) \<and> w = Some (c2, s2)")
    case True
    then obtain ti ts c1 s1 c2 s2 where "t = Some (ti, ts)" "u = Some (c1, s1)" "w = Some (c2, s2)"
      by blast
    with t u w static_epoch_emits [of sep data tc ti ts cs c1 s1 c2 s2] show ?thesis
      by (auto split: if_splits)
  next
    case False
    with t u w show ?thesis
      by (auto simp: static_epoch_def default_max_distance_def split: option.splits prod.splits)
  qed
qed

lemma asteroid_match_emits:
  assumes "find_nearest_mjd_position ps (mjd data) = Inr (a, d)"
    and "find_nearest_object sep (df data) (ra (comp1 objs)) (dec (comp1 objs)) 5 = Inr (Some (c1, s1))"
    and "find_nearest_object sep (df data) (ra (comp2 objs)) (dec (comp2 objs)) 5 = Inr (Some (c2, s2))"
    and "find_nearest_object sep (df data) a d 20 = Inr (Some (ai, s))"
  shows "asteroid_match sep ps objs data =
     (if rows_finite (df data ! ai) (df data ! c1) (df data ! c2)
      then Inr (Some \<lparr>AST_MJD = mjd data, AST_RA = a, AST_DEC = d, AST_SEP = s,
             AST_MAG = MAG_AUTO (df data ! ai), AST_MAGERR = MAGERR_AUTO (df data ! ai),
             AST_COMP1_MAG = MAG_AUTO (df data ! c1), AST_COMP2_MAG = MAG_AUTO (df data ! c2)\<rparr>)
      else Inr None)"
  using assms nearest_index [OF assms(2)] nearest_index [OF assms(3)] nearest_index [OF assms(4)]
  by (simp add: asteroid_match_def default_max_distance_def iloc_def rows_finite_def)

lemma asteroid_match_Some:
  assumes "asteroid_match sep ps objs data = Inr (Some r)"
  shows "\<exists>a d ai s c1 s1 c2 s2.
      find_nearest_mjd_position ps (mjd data) = Inr (a, d) \<and>
      find_nearest_object sep (df data) (ra (comp1 objs)) (dec (comp1 objs)) 5 = Inr (Some (c1, s1)) \<and>
      find_nearest_object sep (df data) (ra (comp2 objs)) (dec (comp2 objs)) 5 = Inr (Some (c2, s2)) \<and>
      find_nearest_object sep (df data) a d 20 = Inr (Some (ai, s))"
  using assms unfolding asteroid_match_def default_max_distance_def
  by (auto split: option.splits prod.splits sum.splits if_splits)

lemma asteroid_match_iff:
  "asteroid_match sep ps objs data = Inr (Some r) \<longleftrightarrow>
     (\<exists>a d ai s c1 s1 c2 s2.
        find_nearest_mjd_position ps (mjd data) = Inr (a, d) \<and>
        find_nearest_object sep (df data) (ra (comp1 objs)) (dec (comp1 objs)) 5 = Inr (Some (c1, s1)) \<and>
        find_nearest_object sep (df data) (ra (comp2 objs)) (dec (comp2 objs)) 5 = Inr (Some (c2, s2)) \<and>
        find_nearest_object sep (df data) a d 20 = Inr (Some (ai, s)) \<and>
        rows_finite (df data ! ai) (df data ! c1) (df data ! c2) \<and>
        r = \<lparr>AST_MJD = mjd data, AST_RA = a, AST_DEC = d, AST_SEP = s,
             AST_MAG = MAG_AUTO (df data ! ai), AST_MAGERR = MAGERR_AUTO (df data ! ai),
             AST_COMP1_MAG = MAG_AUTO (df data ! c1), AST_COMP2_MAG = MAG_AUTO (df data ! c2)\<rparr>)"
  (is "?L \<longleftrightarrow> ?R")
proof
  assume l: ?L
  from asteroid_match_Some [OF l] obtain a d ai s c1 s1 c2 s2 where
    n: "find_nearest_mjd_position ps (mjd data) = Inr (a, d)"
      "find_nearest_object sep (df data) (ra (comp1 objs)) (dec (comp1 objs)) 5 = Inr (Some (c1, s1))"
      "find_nearest_object sep (df data) (ra (comp2 objs)) (dec (comp2 objs)) 5 = Inr (Some (c2, s2))"
      "find_nearest_object sep (df data) a d 20 = Inr (Some (ai, s))"
    by blast
  from l asteroid_match_emits [OF n]
  have "rows_finite (df data ! ai) (df data ! c1) (df data ! c2) \<and>
        r = \<lparr>AST_MJD = mjd data, AST_RA = a, AST_DEC = d, AST_SEP = s,
             AST_MAG = MAG_AUTO (df data ! ai), AST_MAGERR = MAGERR_AUTO (df data ! ai),
             AST_COMP1_MAG = MAG_AUTO (df data ! c1), AST_COMP2_MAG = MAG_AUTO (df data ! c2)\<rparr>"
    by (auto split: if_splits)
  with n show ?R by blast
next
  assume ?R
  then obtain a d ai s c1 s1 c2 s2 where
    n: "find_nearest_mjd_position ps (mjd data) = Inr (a, d)"
      "find_nearest_object sep (df data) (ra (comp1 objs)) (dec (comp1 objs)) 5 = Inr (Some (c1, s1))"
      "find_nearest_object sep (df data) (ra (comp2 objs)) (dec (comp2 objs)) 5 = Inr (Some (c2, s2))"
      "find_nearest_object sep (df data) a d 20 = Inr (Some (ai, s))"
    and f: "rows_finite (df data ! ai) (df data ! c1) (df data ! c2)"
    and r: "r = \<lparr>AST_MJD = mjd data, AST_RA = a, AST_DEC = d, AST_SEP = s,
             AST_MAG = MAG_AUTO (df data ! ai), AST_MAGERR = MAGERR_AUTO (df data ! ai),
             AST_COMP1_MAG = MAG_AUTO (df data ! c1), AST_COMP2_MAG = MAG_AUTO (df data ! c2)\<rparr>"
    by blast
  from asteroid_match_emits [OF n] f r show ?L by simp
qed

lemma asteroid_match_finite:
  "asteroid_match sep ps objs data = Inr (Some r) \<Longrightarrow> asteroid_finite r"
  unfolding asteroid_match_iff by (auto simp: asteroid_finite_def rows_finite_def)

lemma asteroid_epoch_Some:
  "asteroid_epoch sep ps lo hi objs data = Inr (Some r) \<Longrightarrow>
     asteroid_match sep ps objs data = Inr (Some r)"
  unfolding asteroid_epoch_def by (auto split: if_splits)

lemma process_static_unfold:
  "process_static_object_photometry sep pd tc cs =
     for_each (\<lambda>(data_id, data). static_epoch sep tc cs data) pd"
  by (simp add: process_static_object_photometry_def)

lemma process_asteroid_unfold:
  "process_asteroid_photometry sep pd ps objs =
     for_each (\<lambda>(data_id, data). asteroid_epoch sep (sort_key pos_MJD ps)
        (series_min (map pos_MJD (sort_key pos_MJD ps)))
        (series_max (map pos_MJD (sort_key pos_MJD ps))) objs data) pd"
  by (simp add: process_asteroid_photometry_def Let_def)

lemma process_static_props:
  assumes "process_static_object_photometry sep pd tc cs = Inr rs"
  shows "length rs \<le> length pd \<and>
     (\<forall>r\<in>set rs. static_finite r \<and> (\<exists>(i, e)\<in>set pd. static_epoch sep tc cs e = Inr (Some r)))"
proof -
  from assms have rs: "for_each (\<lambda>(data_id, data). static_epoch sep tc cs data) pd = Inr rs"
    by (simp add: process_static_unfold)
  have "static_finite r \<and> (\<exists>(i, e)\<in>set pd. static_epoch sep tc cs e = Inr (Some r))"
    if "r \<in> set rs" for r
  proof -
    from for_each_member [OF rs that]
    obtain i e where "(i, e) \<in> set pd" "static_epoch sep tc cs e = Inr (Some r)" by auto
    with static_epoch_finite [of sep tc cs e r] show ?thesis by blast
  qed
  with for_each_length [OF rs] show ?thesis by blast
qed

lemma process_static_total:
  assumes "dec_ok (dec tc)" and "dec_ok (dec (comp1 cs))" and "dec_ok (dec (comp2 cs))"
  shows "\<exists>rs. process_static_object_photometry sep pd tc cs = Inr rs"
  unfolding process_static_unfold
  by (rule for_each_total) (use static_epoch_total [OF assms] in \<open>auto simp: case_prod_beta\<close>)

lemma process_asteroid_props:
  assumes "process_asteroid_photometry sep pd ps objs = Inr rs"
  shows "length rs \<le> length pd \<and>
     (\<forall>r\<in>set rs. asteroid_finite r \<and>
        (\<exists>(i, e)\<in>set pd. asteroid_match sep (sort_key pos_MJD ps) objs e = Inr (Some r)))"
proof -
  define sps where "sps = sort_key pos_MJD ps"
  define lo where "lo = series_min (map pos_MJD sps)"
  define hi where "hi = series_max (map pos_MJD sps)"
  from assms have rs: "for_each (\<lambda>(data_id, data). asteroid_epoch sep sps lo hi objs data) pd = Inr rs"
    by (simp add: process_asteroid_unfold sps_def lo_def hi_def)
  have "asteroid_finite r \<and> (\<exists>(i, e)\<in>set pd. asteroid_match sep sps objs e = Inr (Some r))"
    if "r \<in> set rs" for r
  proof -
    from for_each_member [OF rs that]
    obtain i e where e: "(i, e) \<in> set pd" "asteroid_epoch sep sps lo hi objs e = Inr (Some r)"
      by auto
    from asteroid_epoch_Some [OF e(2)] have "asteroid_match sep sps objs e = Inr (Some r)" .
    with e(1) asteroid_match_finite [of sep sps objs e r] show ?thesis by blast
  qed
  with for_each_length [OF rs] show ?thesis unfolding sps_def by blast
qed

lemma nearest_mjd_props:
  assumes "ps \<noteq> []"
  shows "\<exists>p\<in>set ps. find_nearest_mjd_position ps t = Inr (pos_RA p, pos_DEC p) \<and>
           (\<forall>q\<in>set ps. \<bar>pos_MJD p - t\<bar> \<le> \<bar>pos_MJD q - t\<bar>)"
proof -
  let ?ds = "map (\<lambda>p. \<bar>pos_MJD p - t\<bar>) ps"
  from assms have "?ds \<noteq> []" by simp
  then obtain k where k: "argmin ?ds = Some k"
    using argmin_None_iff [of ?ds] by (cases "argmin ?ds") auto
  have len: "length ?ds = length ps" by simp
  from argmin_props [OF k] have kl: "k < length ps"
    and kmin: "\<forall>j<length ps. ?ds ! k \<le> ?ds ! j" unfolding len by blast+
  have "find_nearest_mjd_position ps t = Inr (pos_RA (ps ! k), pos_DEC (ps ! k))"
    using k kl by (simp add: find_nearest_mjd_position_def iloc_def)
  moreover have "\<bar>pos_MJD (ps ! k) - t\<bar> \<le> \<bar>pos_MJD q - t\<bar>" if "q \<in> set ps" for q
  proof -
    from that obtain j where j: "j < length ps" "ps ! j = q" by (auto simp: in_set_conv_nth)
    with kmin have "?ds ! k \<le> ?ds ! j" by blast
    with kl j show ?thesis by simp
  qed
  ultimately show ?thesis using kl by (intro bexI [of _ "ps ! k"]) auto
qed

lemma asteroid_match_unmatched:
  assumes "find_nearest_mjd_position ps (mjd data) = Inr (a, d)"
    and "find_nearest_object sep (df data) (ra (comp1 objs)) (dec (comp1 objs)) 5 = Inr v1"
    and "find_nearest_object sep (df data) (ra (comp2 objs)) (dec (comp2 objs)) 5 = Inr v2"
    and "find_nearest_object sep (df data) a d 20 = Inr v3"
    and "v1 = None \<or> v2 = None \<or> v3 = None"
  shows "asteroid_match sep ps objs data = Inr None"
  using assms
  by (auto simp: asteroid_match_def default_max_distance_def split: option.splits prod.splits)

lemma asteroid_match_total:
  assumes pos: "find_nearest_mjd_position ps (mjd data) = Inr (a, d)"
    and ok1: "dec_ok (dec (comp1 objs))" and ok2: "dec_ok (dec (comp2 objs))" and ok3: "dec_ok d"
  shows "\<exists>v. asteroid_match sep ps objs data = Inr v"
proof -
  from nearest_total [OF ok1] obtain v1
    where v1: "find_nearest_object sep (df data) (ra (comp1 objs)) (dec (comp1 objs)) 5 = Inr v1"
    by blast
  from nearest_total [OF ok2] obtain v2
    where v2: "find_nearest_object sep (df data) (ra (comp2 objs)) (dec (comp2 objs)) 5 = Inr v2"
    by blast
  from nearest_total [OF ok3] obtain v3
    where v3: "find_nearest_object sep (df data) a d 20 = Inr v3" by blast
  show ?thesis
  proof (cases "v1 = None \<or> v2 = None \<or> v3 = None")
    case True
    from asteroid_match_unmatched [OF pos v1 v2 v3 True] show ?thesis by simp
  next
    case False
    then obtain c1 s1 c2 s2 ai s where "v1 = Some (c1, s1)" "v2 = Some (c2, s2)" "v3 = Some (ai, s)"
      by auto
    with v1 v2 v3 asteroid_match_emits [OF pos, of sep objs c1 s1 c2 s2 ai s]
    show ?thesis by (auto split: if_splits)
  qed
qed

lemma process_asteroid_total:
  assumes ne: "ps \<noteq> []"
    and ok1: "dec_ok (dec (comp1 objs))" and ok2: "dec_ok (dec (comp2 objs))"
    and okp: "\<forall>p\<in>set ps. dec_ok (pos_DEC p)"
  shows "\<exists>rs. process_asteroid_photometry sep pd ps objs = Inr rs"
proof -
  define sps where "sps = sort_key pos_MJD ps"
  have sne: "sps \<noteq> []" using ne unfolding sps_def by (metis length_sort length_0_conv)
  have sset: "set sps = set ps" by (simp add: sps_def)
  have m: "\<exists>v. asteroid_match sep sps objs e = Inr v" for e
  proof -
    from nearest_mjd_props [OF sne, of "mjd e"] obtain p
      where p: "p \<in> set sps" "find_nearest_mjd_position sps (mjd e) = Inr (pos_RA p, pos_DEC p)"
      by blast
    from p(1) okp have "dec_ok (pos_DEC p)" unfolding sset by blast
    from asteroid_match_total [OF p(2) ok1 ok2 this] show ?thesis .
  qed
  have "\<exists>v. asteroid_epoch sep sps lo hi objs e = Inr v" for lo hi e
    using m [of e] by (simp add: asteroid_epoch_def)
  then have "\<forall>x\<in>set pd. \<exists>r. (\<lambda>(data_id, data). asteroid_epoch sep sps
        (series_min (map pos_MJD sps)) (series_max (map pos_MJD sps)) objs data) x = Inr r"
    by (simp add: case_prod_beta)
  from for_each_total [OF this] show ?thesis
    unfolding process_asteroid_unfold sps_def .
qed

subsection \<open>The example run\<close>

lemma example_static_run:
  "process_static_object_photometry example_sep example_data example_target example_comps =
     Inr [\<lparr>MJD = 60000.25, TARGET_RA = Fin 10, TARGET_DEC = Fin 20, TARGET_SEP = 0,
            TARGET_MAG = Fin 12, TARGET_MAGERR = Fin 0.01, COMP1_MAG = Fin 13, COMP2_MAG = Fin 13.5\<rparr>,
          \<lparr>MJD = 60001, TARGET_RA = Fin 10, TARGET_DEC = Fin 20, TARGET_SEP = 0,
            TARGET_MAG = Fin 12, TARGET_MAGERR = Fin 0.01, COMP1_MAG = Fin 13, COMP2_MAG = Fin 13.5\<rparr>]"
  by (simp add: process_static_object_photometry_def example_data_def static_epoch_def
        example_epoch_def example_target_def example_comps_def default_max_distance_def
        nearest_good nearest_bad iloc_def)
     (simp add: good_catalog_def bad_catalog_def example_row_def)

lemma example_sorted:
  "sort_key pos_MJD example_positions =
     [\<lparr>pos_MJD = 60000, pos_RA = 18, pos_DEC = 20\<rparr>, \<lparr>pos_MJD = 60001, pos_RA = 10, pos_DEC = 21\<rparr>]"
  by (simp add: example_positions_def)

lemma example_range:
  "series_min (map pos_MJD (sort_key pos_MJD example_positions)) = Fin 60000"
  "series_max (map pos_MJD (sort_key pos_MJD example_positions)) = Fin 60001"
  by (simp_all add: example_sorted series_min_def series_max_def)

lemma example_lookup:
  "t \<le> 60000.5 \<Longrightarrow>
     find_nearest_mjd_position (sort_key pos_MJD example_positions) t = Inr (18, 20)"
  "60000.5 < t \<Longrightarrow>
     find_nearest_mjd_position (sort_key pos_MJD example_positions) t = Inr (10, 21)"
  by (simp_all add: example_sorted find_nearest_mjd_position_def iloc_def abs_if)

lemma example_asteroid_run:
  "process_asteroid_photometry example_sep example_data example_positions example_comps =
     Inr [\<lparr>AST_MJD = 60000.25, AST_RA = 18, AST_DEC = 20, AST_SEP = 8,
            AST_MAG = Fin 12, AST_MAGERR = Fin 0.01, AST_COMP1_MAG = Fin 13, AST_COMP2_MAG = Fin 13.5\<rparr>,
          \<lparr>AST_MJD = 60001, AST_RA = 10, AST_DEC = 21, AST_SEP = 1,
            AST_MAG = Fin 12, AST_MAGERR = Fin 0.01, AST_COMP1_MAG = Fin 13, AST_COMP2_MAG = Fin 13.5\<rparr>]"
  by (simp add: process_asteroid_photometry_def Let_def example_range example_data_def
        asteroid_epoch_def asteroid_match_def example_epoch_def example_comps_def
        default_max_distance_def example_lookup nearest_good nearest_bad iloc_def)
     (simp add: good_catalog_def bad_catalog_def example_row_def)

text \<open>
  Claim C3.  Every record of the measurement table, in static and in moving-target mode,
  has finite target magnitude, target magnitude error, comp1 magnitude and comp2
  magnitude, and is the record of one of the epochs; there is at most one record per
  epoch, and the reducers return a table whenever the reference declinations
  lie in \<open>[-90, 90]\<close> (and, in moving-target mode, the ephemeris is not empty).  An epoch yields a record exactly when all its objects
  are matched (in moving-target mode the target at the position looked up in the
  ephemeris) and the four values of the matched rows are finite; the record then holds
  these values.  When the objects are matched and one of the four values is not finite,
  the epoch yields nothing.
\<close>

theorem reducer_records_finite:
  "(\<forall>rs. process_static_object_photometry sep pd tc cs = Inr rs \<longrightarrow>
      length rs \<le> length pd \<and>
      (\<forall>r\<in>set rs. static_finite r \<and>
         (\<exists>(i, e)\<in>set pd. static_epoch sep tc cs e = Inr (Some r)))) \<and>
   (dec_ok (dec tc) \<and> dec_ok (dec (comp1 cs)) \<and> dec_ok (dec (comp2 cs)) \<longrightarrow>
      (\<exists>rs. process_static_object_photometry sep pd tc cs = Inr rs)) \<and>
   (\<forall>rs. process_asteroid_photometry sep pd ps objs = Inr rs \<longrightarrow>
      length rs \<le> length pd \<and>
      (\<forall>r\<in>set rs. asteroid_finite r \<and>
         (\<exists>(i, e)\<in>set pd. asteroid_match sep (sort_key pos_MJD ps) objs e = Inr (Some r)))) \<and>
   (ps \<noteq> [] \<and> dec_ok (dec (comp1 objs)) \<and> dec_ok (dec (comp2 objs)) \<and>
      (\<forall>p\<in>set ps. dec_ok (pos_DEC p)) \<longrightarrow>
      (\<exists>rs. process_asteroid_photometry sep pd ps objs = Inr rs)) \<and>
   (\<forall>r. static_epoch sep tc cs data = Inr (Some r) \<longleftrightarrow>
      (\<exists>ti ts c1 s1 c2 s2.
         find_nearest_object sep (df data) (ra tc) (dec tc) 5 = Inr (Some (ti, ts)) \<and>
         find_nearest_object sep (df data) (ra (comp1 cs)) (dec (comp1 cs)) 5 = Inr (Some (c1, s1)) \<and>
         find_nearest_object sep (df data) (ra (comp2 cs)) (dec (comp2 cs)) 5 = Inr (Some (c2, s2)) \<and>
         rows_finite (df data ! ti) (df data ! c1) (df data ! c2) \<and>
         r = \<lparr>MJD = mjd data,
              TARGET_RA = ALPHA_J2000 (df data ! ti), TARGET_DEC = DELTA_J2000 (df data ! ti),
              TARGET_SEP = ts,
              TARGET_MAG = MAG_AUTO (df data ! ti), TARGET_MAGERR = MAGERR_AUTO (df data ! ti),
              COMP1_MAG = MAG_AUTO (df data ! c1), COMP2_MAG = MAG_AUTO (df data ! c2)\<rparr>)) \<and>
   (\<forall>ti ts c1 s1 c2 s2.
      find_nearest_object sep (df data) (ra tc) (dec tc) 5 = Inr (Some (ti, ts)) \<and>
      find_nearest_object sep (df data) (ra (comp1 cs)) (dec (comp1 cs)) 5 = Inr (Some (c1, s1)) \<and>
      find_nearest_object sep (df data) (ra (comp2 cs)) (dec (comp2 cs)) 5 = Inr (Some (c2, s2)) \<and>
      \<not> rows_finite (df data ! ti) (df data ! c1) (df data ! c2) \<longrightarrow>
      static_epoch sep tc cs data = Inr None) \<and>
   (\<forall>r. asteroid_match sep eph objs data = Inr (Some r) \<longleftrightarrow>
      (\<exists>a d ai s c1 s1 c2 s2.
         find_nearest_mjd_position eph (mjd data) = Inr (a, d) \<and>
         find_nearest_object sep (df data) (ra (comp1 objs)) (dec (comp1 objs)) 5 = Inr (Some (c1, s1)) \<and>
         find_nearest_object sep (df data) (ra (comp2 objs)) (dec (comp2 objs)) 5 = Inr (Some (c2, s2)) \<and>
         find_nearest_object sep (df data) a d 20 = Inr (Some (ai, s)) \<and>
         rows_finite (df data ! ai) (df data ! c1) (df data ! c2) \<and>
         r = \<lparr>AST_MJD = mjd data, AST_RA = a, AST_DEC = d, AST_SEP = s,
              AST_MAG = MAG_AUTO (df data ! ai), AST_MAGERR = MAGERR_AUTO (df data ! ai),
              AST_COMP1_MAG = MAG_AUTO (df data ! c1), AST_COMP2_MAG = MAG_AUTO (df data ! c2)\<rparr>)) \<and>
   (\<forall>a d ai s c1 s1 c2 s2.
      find_nearest_mjd_position eph (mjd data) = Inr (a, d) \<and>
      find_nearest_object sep (df data) (ra (comp1 objs)) (dec (comp1 objs)) 5 = Inr (Some (c1, s1)) \<and>
      find_nearest_object sep (df data) (ra (comp2 objs)) (dec (comp2 objs)) 5 = Inr (Some (c2, s2)) \<and>
      find_nearest_object sep (df data) a d 20 = Inr (Some (ai, s)) \<and>
      \<not> rows_finite (df data ! ai) (df data ! c1) (df data ! c2) \<longrightarrow>
      asteroid_match sep eph objs data = Inr None)"
proof -
  have a: "\<forall>rs. process_static_object_photometry sep pd tc cs = Inr rs \<longrightarrow>
      length rs \<le> length pd \<and>
      (\<forall>r\<in>set rs. static_finite r \<and>
         (\<exists>(i, e)\<in>set pd. static_epoch sep tc cs e = Inr (Some r)))"
    using process_static_props by blast
  have b: "dec_ok (dec tc) \<and> dec_ok (dec (comp1 cs)) \<and> dec_ok (dec (comp2 cs)) \<longrightarrow>
      (\<exists>rs. process_static_object_photometry sep pd tc cs = Inr rs)"
    using process_static_total by blast
  have c: "\<forall>rs. process_asteroid_photometry sep pd ps objs = Inr rs \<longrightarrow>
      length rs \<le> length pd \<and>
      (\<forall>r\<in>set rs. asteroid_finite r \<and>
         (\<exists>(i, e)\<in>set pd. asteroid_match sep (sort_key pos_MJD ps) objs e = Inr (Some r)))"
    using process_asteroid_props by blast
  have c': "ps \<noteq> [] \<and> dec_ok (dec (comp1 objs)) \<and> dec_ok (dec (comp2 objs)) \<and>
      (\<forall>p\<in>set ps. dec_ok (pos_DEC p)) \<longrightarrow>
      (\<exists>rs. process_asteroid_photometry sep pd ps objs = Inr rs)"
    using process_asteroid_total by blast
  have d: "\<forall>ti ts c1 s1 c2 s2.
      find_nearest_object sep (df data) (ra tc) (dec tc) 5 = Inr (Some (ti, ts)) \<and>
      find_nearest_object sep (df data) (ra (comp1 cs)) (dec (comp1 cs)) 5 = Inr (Some (c1, s1)) \<and>
      find_nearest_object sep (df data) (ra (comp2 cs)) (dec (comp2 cs)) 5 = Inr (Some (c2, s2)) \<and>
      \<not> rows_finite (df data ! ti) (df data ! c1) (df data ! c2) \<longrightarrow>
      static_epoch sep tc cs data = Inr None"
    using static_epoch_emits [of sep data tc _ _ cs] by auto
  have e: "\<forall>a d ai s c1 s1 c2 s2.
      find_nearest_mjd_position eph (mjd data) = Inr (a, d) \<and>
      find_nearest_object sep (df data) (ra (comp1 objs)) (dec (comp1 objs)) 5 = Inr (Some (c1, s1)) \<and>
      find_nearest_object sep (df data) (ra (comp2 objs)) (dec (comp2 objs)) 5 = Inr (Some (c2, s2)) \<and>
      find_nearest_object sep (df data) a d 20 = Inr (Some (ai, s)) \<and>
      \<not> rows_finite (df data ! ai) (df data ! c1) (df data ! c2) \<longrightarrow>
      asteroid_match sep eph objs data = Inr None"
    using asteroid_match_emits [of eph data _ _ sep objs] by auto
  from a b c c' d e static_epoch_iff [of sep tc cs data] asteroid_match_iff [of sep eph objs data]
  show ?thesis by blast
qed

theorem reducer_records_finite_witness:
  "process_static_object_photometry example_sep example_data example_target example_comps =
     Inr [\<lparr>MJD = 60000.25, TARGET_RA = Fin 10, TARGET_DEC = Fin 20, TARGET_SEP = 0,
            TARGET_MAG = Fin 12, TARGET_MAGERR = Fin 0.01, COMP1_MAG = Fin 13, COMP2_MAG = Fin 13.5\<rparr>,
          \<lparr>MJD = 60001, TARGET_RA = Fin 10, TARGET_DEC = Fin 20, TARGET_SEP = 0,
            TARGET_MAG = Fin 12, TARGET_MAGERR = Fin 0.01, COMP1_MAG = Fin 13, COMP2_MAG = Fin 13.5\<rparr>] \<and>
   static_finite \<lparr>MJD = 60000.25, TARGET_RA = Fin 10, TARGET_DEC = Fin 20, TARGET_SEP = 0,
            TARGET_MAG = Fin 12, TARGET_MAGERR = Fin 0.01, COMP1_MAG = Fin 13, COMP2_MAG = Fin 13.5\<rparr> \<and>
   static_epoch example_sep example_target example_comps
     (example_epoch 60000.5 bad_catalog ''V'') = Inr None \<and>
   process_asteroid_photometry example_sep example_data example_positions example_comps =
     Inr [\<lparr>AST_MJD = 60000.25, AST_RA = 18, AST_DEC = 20, AST_SEP = 8,
            AST_MAG = Fin 12, AST_MAGERR = Fin 0.01, AST_COMP1_MAG = Fin 13, AST_COMP2_MAG = Fin 13.5\<rparr>,
          \<lparr>AST_MJD = 60001, AST_RA = 10, AST_DEC = 21, AST_SEP = 1,
            AST_MAG = Fin 12, AST_MAGERR = Fin 0.01, AST_COMP1_MAG = Fin 13, AST_COMP2_MAG = Fin 13.5\<rparr>] \<and>
   asteroid_finite \<lparr>AST_MJD = 60000.25, AST_RA = 18, AST_DEC = 20, AST_SEP = 8,
            AST_MAG = Fin 12, AST_MAGERR = Fin 0.01, AST_COMP1_MAG = Fin 13, AST_COMP2_MAG = Fin 13.5\<rparr> \<and>
   asteroid_match example_sep (sort_key pos_MJD example_positions) example_comps
     (example_epoch 60000.5 bad_catalog ''V'') = Inr None \<and>
   \<not> rows_finite (bad_catalog ! 0) (bad_catalog ! 1) (bad_catalog ! 2)"
proof -
  let ?bad = "example_epoch 60000.5 bad_catalog ''V''"
  note t = reducer_records_finite [of example_sep example_data example_target example_comps
      example_positions example_comps ?bad "sort_key pos_MJD example_positions"]
  have ok: "dec_ok (dec example_target)" "dec_ok (dec (comp1 example_comps))"
    "dec_ok (dec (comp2 example_comps))"
    by (simp_all add: dec_ok_def example_target_def example_comps_def)
  have nf: "\<not> rows_finite (bad_catalog ! 0) (bad_catalog ! 1) (bad_catalog ! 2)"
    by (simp add: rows_finite_def bad_catalog_def example_row_def)
  have sel: "df ?bad = bad_catalog" "mjd ?bad = 60000.5"
    "ra example_target = 10" "dec example_target = 20"
    "ra (comp1 example_comps) = 40" "dec (comp1 example_comps) = 20"
    "ra (comp2 example_comps) = 10" "dec (comp2 example_comps) = 50"
    by (simp_all add: example_epoch_def example_target_def example_comps_def)
  from t example_static_run
  have a: "static_finite \<lparr>MJD = 60000.25, TARGET_RA = Fin 10, TARGET_DEC = Fin 20, TARGET_SEP = 0,
            TARGET_MAG = Fin 12, TARGET_MAGERR = Fin 0.01, COMP1_MAG = Fin 13, COMP2_MAG = Fin 13.5\<rparr>"
    by auto
  from t example_asteroid_run
  have b: "asteroid_finite \<lparr>AST_MJD = 60000.25, AST_RA = 18, AST_DEC = 20, AST_SEP = 8,
            AST_MAG = Fin 12, AST_MAGERR = Fin 0.01, AST_COMP1_MAG = Fin 13, AST_COMP2_MAG = Fin 13.5\<rparr>"
    by auto
  note skip_static = t [THEN conjunct2, THEN conjunct2, THEN conjunct2, THEN conjunct2,
      THEN conjunct2, THEN conjunct1, rule_format, of 0 0 1 0 2 0]
  have c: "static_epoch example_sep example_target example_comps ?bad = Inr None"
    using skip_static nf unfolding sel by (simp add: nearest_bad)
  note skip_moving = t [THEN conjunct2, THEN conjunct2, THEN conjunct2, THEN conjunct2,
      THEN conjunct2, THEN conjunct2, THEN conjunct2, rule_format, of 18 20 1 0 2 0 0 8]
  have d: "asteroid_match example_sep (sort_key pos_MJD example_positions) example_comps ?bad =
      Inr None"
    using skip_moving nf unfolding sel by (simp add: nearest_bad example_lookup)
  from a b c d nf example_static_run example_asteroid_run show ?thesis by simp
qed

section \<open>Moving-target mode\<close>

lemma series_range_sorted:
  assumes "ps \<noteq> []"
  shows "series_min (map pos_MJD (sort_key pos_MJD ps)) = Fin (Min (pos_MJD ` set ps))"
    and "series_max (map pos_MJD (sort_key pos_MJD ps)) = Fin (Max (pos_MJD ` set ps))"
proof -
  have "sort_key pos_MJD ps \<noteq> []"
    using assms by (metis length_sort length_0_conv)
  then show "series_min (map pos_MJD (sort_key pos_MJD ps)) = Fin (Min (pos_MJD ` set ps))"
    and "series_max (map pos_MJD (sort_key pos_MJD ps)) = Fin (Max (pos_MJD ` set ps))"
    by (simp_all add: series_min_def series_max_def)
qed

lemma asteroid_epoch_outside:
  assumes "ps \<noteq> []"
    and "mjd data < Min (pos_MJD ` set ps) \<or> Max (pos_MJD ` set ps) < mjd data"
  shows "asteroid_epoch sep (sort_key pos_MJD ps)
        (series_min (map pos_MJD (sort_key pos_MJD ps)))
        (series_max (map pos_MJD (sort_key pos_MJD ps))) objs data = Inr None"
  using assms(2) by (auto simp: asteroid_epoch_def series_range_sorted [OF assms(1)])

lemma asteroid_epoch_inside:
  assumes "ps \<noteq> []"
    and "Min (pos_MJD ` set ps) \<le> mjd data" and "mjd data \<le> Max (pos_MJD ` set ps)"
  shows "asteroid_epoch sep (sort_key pos_MJD ps)
        (series_min (map pos_MJD (sort_key pos_MJD ps)))
        (series_max (map pos_MJD (sort_key pos_MJD ps))) objs data =
     asteroid_match sep (sort_key pos_MJD ps) objs data"
  using assms(2,3) by (auto simp: asteroid_epoch_def series_range_sorted [OF assms(1)])

text \<open>
  Claim C4.  In moving-target mode with a non-empty ephemeris, an epoch whose time stamp
  is strictly below the smallest or strictly above the largest ephemeris time stamp is
  skipped, so the table is that of the epochs within the range; an epoch within the
  range, in particular one exactly at the smallest time stamp, passes the coverage check
  and goes on to the matching.  The position looked up for an epoch is that of an
  ephemeris entry whose time stamp is nearest to the epoch's (no interpolation).  The
  matching is done at that position: an epoch yields a record exactly when the
  comparison stars are matched, the target is matched at the looked-up position and the
  values of the matched rows are finite, and the record holds the looked-up position and
  the separation and magnitudes of the row matched there.
\<close>

theorem asteroid_coverage_nearest_sample:
  fixes ps :: "position list" and data :: epoch
  defines "sps \<equiv> sort_key pos_MJD ps"
  defines "lo \<equiv> series_min (map pos_MJD sps)"
  defines "hi \<equiv> series_max (map pos_MJD sps)"
  assumes ne: "ps \<noteq> []"
  shows "(mjd data < Min (pos_MJD ` set ps) \<or> Max (pos_MJD ` set ps) < mjd data \<longrightarrow>
            asteroid_epoch sep sps lo hi objs data = Inr None) \<and>
         (mjd data = Min (pos_MJD ` set ps) \<longrightarrow>
            asteroid_epoch sep sps lo hi objs data = asteroid_match sep sps objs data) \<and>
         (Min (pos_MJD ` set ps) \<le> mjd data \<and> mjd data \<le> Max (pos_MJD ` set ps) \<longrightarrow>
            asteroid_epoch sep sps lo hi objs data = asteroid_match sep sps objs data) \<and>
         (\<exists>p\<in>set ps. find_nearest_mjd_position sps (mjd data) = Inr (pos_RA p, pos_DEC p) \<and>
            (\<forall>q\<in>set ps. \<bar>pos_MJD p - mjd data\<bar> \<le> \<bar>pos_MJD q - mjd data\<bar>)) \<and>
         (\<forall>r. asteroid_match sep sps objs data = Inr (Some r) \<longleftrightarrow>
            (\<exists>a d ai s c1 s1 c2 s2.
               find_nearest_mjd_position sps (mjd data) = Inr (a, d) \<and>
               find_nearest_object sep (df data) (ra (comp1 objs)) (dec (comp1 objs)) 5 =
                 Inr (Some (c1, s1)) \<and>
               find_nearest_object sep (df data) (ra (comp2 objs)) (dec (comp2 objs)) 5 =
                 Inr (Some (c2, s2)) \<and>
               find_nearest_object sep (df data) a d 20 = Inr (Some (ai, s)) \<and>
               rows_finite (df data ! ai) (df data ! c1) (df data ! c2) \<and>
               r = \<lparr>AST_MJD = mjd data, AST_RA = a, AST_DEC = d, AST_SEP = s,
                    AST_MAG = MAG_AUTO (df data ! ai), AST_MAGERR = MAGERR_AUTO (df data ! ai),
                    AST_COMP1_MAG = MAG_AUTO (df data ! c1),
                    AST_COMP2_MAG = MAG_AUTO (df data ! c2)\<rparr>)) \<and>
         (\<forall>a d. find_nearest_mjd_position sps (mjd data) = Inr (a, d) \<and>
            find_nearest_object sep (df data) a d 20 = Inr None \<longrightarrow>
            (\<forall>r. asteroid_match sep sps objs data \<noteq> Inr (Some r))) \<and>
         process_asteroid_photometry sep pd ps objs =
           for_each (\<lambda>(data_id, e). asteroid_epoch sep sps lo hi objs e) pd \<and>
         process_asteroid_photometry sep pd ps objs =
           process_asteroid_photometry sep
             (filter (\<lambda>(data_id, e). Min (pos_MJD ` set ps) \<le> mjd e \<and> mjd e \<le> Max (pos_MJD ` set ps)) pd)
             ps objs"
proof (intro conjI)
  show "mjd data < Min (pos_MJD ` set ps) \<or> Max (pos_MJD ` set ps) < mjd data \<longrightarrow>
            asteroid_epoch sep sps lo hi objs data = Inr None"
    using asteroid_epoch_outside [OF ne, of data sep objs] by (simp add: sps_def lo_def hi_def)
next
  have mm: "Min (pos_MJD ` set ps) \<le> Max (pos_MJD ` set ps)"
    using ne by (simp add: Min_le_iff)
  show inside: "Min (pos_MJD ` set ps) \<le> mjd data \<and> mjd data \<le> Max (pos_MJD ` set ps) \<longrightarrow>
            asteroid_epoch sep sps lo hi objs data = asteroid_match sep sps objs data"
    using asteroid_epoch_inside [OF ne, of data sep objs] by (simp add: sps_def lo_def hi_def)
  show "mjd data = Min (pos_MJD ` set ps) \<longrightarrow>
            asteroid_epoch sep sps lo hi objs data = asteroid_match sep sps objs data"
    using inside mm by simp
next
  have "sps \<noteq> []" using ne unfolding sps_def by (metis length_sort length_0_conv)
  from nearest_mjd_props [OF this, of "mjd data"]
  show "\<exists>p\<in>set ps. find_nearest_mjd_position sps (mjd data) = Inr (pos_RA p, pos_DEC p) \<and>
            (\<forall>q\<in>set ps. \<bar>pos_MJD p - mjd data\<bar> \<le> \<bar>pos_MJD q - mjd data\<bar>)"
    by (simp add: sps_def)
next
  show "\<forall>r. asteroid_match sep sps objs data = Inr (Some r) \<longleftrightarrow>
            (\<exists>a d ai s c1 s1 c2 s2.
               find_nearest_mjd_position sps (mjd data) = Inr (a, d) \<and>
               find_nearest_object sep (df data) (ra (comp1 objs)) (dec (comp1 objs)) 5 =
                 Inr (Some (c1, s1)) \<and>
               find_nearest_object sep (df data) (ra (comp2 objs)) (dec (comp2 objs)) 5 =
                 Inr (Some (c2, s2)) \<and>
               find_nearest_object sep (df data) a d 20 = Inr (Some (ai, s)) \<and>
               rows_finite (df data ! ai) (df data ! c1) (df data ! c2) \<and>
               r = \<lparr>AST_MJD = mjd data, AST_RA = a, AST_DEC = d, AST_SEP = s,
                    AST_MAG = MAG_AUTO (df data ! ai), AST_MAGERR = MAGERR_AUTO (df data ! ai),
                    AST_COMP1_MAG = MAG_AUTO (df data ! c1),
                    AST_COMP2_MAG = MAG_AUTO (df data ! c2)\<rparr>)"
    using asteroid_match_iff [of sep sps objs data] by blast
next
  show "\<forall>a d. find_nearest_mjd_position sps (mjd data) = Inr (a, d) \<and>
            find_nearest_object sep (df data) a d 20 = Inr None \<longrightarrow>
            (\<forall>r. asteroid_match sep sps objs data \<noteq> Inr (Some r))"
  proof (intro allI impI notI)
    fix a d r
    assume h: "find_nearest_mjd_position sps (mjd data) = Inr (a, d) \<and>
            find_nearest_object sep (df data) a d 20 = Inr None"
      and r: "asteroid_match sep sps objs data = Inr (Some r)"
    from asteroid_match_Some [OF r] h show False by auto
  qed
next
  show u: "process_asteroid_photometry sep pd ps objs =
           for_each (\<lambda>(data_id, e). asteroid_epoch sep sps lo hi objs e) pd" for pd
    unfolding sps_def lo_def hi_def by (rule process_asteroid_unfold)
  let ?P = "\<lambda>(data_id :: nat, e). Min (pos_MJD ` set ps) \<le> mjd e \<and> mjd e \<le> Max (pos_MJD ` set ps)"
  have "\<forall>x\<in>set pd. \<not> ?P x \<longrightarrow> (\<lambda>(data_id, e). asteroid_epoch sep sps lo hi objs e) x = Inr None"
  proof (intro ballI impI)
    fix x assume "x \<in> set pd" and "\<not> ?P x"
    then have "mjd (snd x) < Min (pos_MJD ` set ps) \<or> Max (pos_MJD ` set ps) < mjd (snd x)"
      by (auto simp: case_prod_beta not_le)
    from asteroid_epoch_outside [OF ne this]
    show "(\<lambda>(data_id, e). asteroid_epoch sep sps lo hi objs e) x = Inr None"
      by (simp add: sps_def lo_def hi_def case_prod_beta)
  qed
  from for_each_filter [OF this]
  show "process_asteroid_photometry sep pd ps objs =
           process_asteroid_photometry sep (filter ?P pd) ps objs"
    unfolding u by simp
qed

lemma example_Min_Max:
  "Min (pos_MJD ` set example_positions) = 60000"
  "Max (pos_MJD ` set example_positions) = 60001"
  by (simp_all add: example_positions_def)

lemma example_match_at_min:
  "asteroid_match example_sep (sort_key pos_MJD example_positions) example_comps
      (example_epoch 60000 good_catalog ''R'') =
     Inr (Some \<lparr>AST_MJD = 60000, AST_RA = 18, AST_DEC = 20, AST_SEP = 8,
            AST_MAG = Fin 12, AST_MAGERR = Fin 0.01, AST_COMP1_MAG = Fin 13,
            AST_COMP2_MAG = Fin 13.5\<rparr>)"
  by (simp add: asteroid_match_def example_epoch_def example_comps_def default_max_distance_def
        example_lookup nearest_good iloc_def)
     (simp add: good_catalog_def example_row_def)

lemma example_match_late:
  "asteroid_match example_sep (sort_key pos_MJD example_positions) example_comps
      (example_epoch 60001 good_catalog ''R'') =
     Inr (Some \<lparr>AST_MJD = 60001, AST_RA = 10, AST_DEC = 21, AST_SEP = 1,
            AST_MAG = Fin 12, AST_MAGERR = Fin 0.01, AST_COMP1_MAG = Fin 13,
            AST_COMP2_MAG = Fin 13.5\<rparr>)"
  by (simp add: asteroid_match_def example_epoch_def example_comps_def default_max_distance_def
        example_lookup nearest_good iloc_def)
     (simp add: good_catalog_def example_row_def)

theorem asteroid_coverage_nearest_sample_witness:
  "example_positions \<noteq> [] \<and>
   Min (pos_MJD ` set example_positions) = 60000 \<and>
   asteroid_epoch example_sep (sort_key pos_MJD example_positions)
      (series_min (map pos_MJD (sort_key pos_MJD example_positions)))
      (series_max (map pos_MJD (sort_key pos_MJD example_positions))) example_comps
      (example_epoch 59999 good_catalog ''R'') = Inr None \<and>
   asteroid_epoch example_sep (sort_key pos_MJD example_positions)
      (series_min (map pos_MJD (sort_key pos_MJD example_positions)))
      (series_max (map pos_MJD (sort_key pos_MJD example_positions))) example_comps
      (example_epoch 60002 good_catalog ''R'') = Inr None \<and>
   asteroid_epoch example_sep (sort_key pos_MJD example_positions)
      (series_min (map pos_MJD (sort_key pos_MJD example_positions)))
      (series_max (map pos_MJD (sort_key pos_MJD example_positions))) example_comps
      (example_epoch 60000 good_catalog ''R'') =
     Inr (Some \<lparr>AST_MJD = 60000, AST_RA = 18, AST_DEC = 20, AST_SEP = 8,
            AST_MAG = Fin 12, AST_MAGERR = Fin 0.01, AST_COMP1_MAG = Fin 13,
            AST_COMP2_MAG = Fin 13.5\<rparr>) \<and>
   asteroid_epoch example_sep (sort_key pos_MJD example_positions)
      (series_min (map pos_MJD (sort_key pos_MJD example_positions)))
      (series_max (map pos_MJD (sort_key pos_MJD example_positions))) example_comps
      (example_epoch 60001 good_catalog ''R'') =
     Inr (Some \<lparr>AST_MJD = 60001, AST_RA = 10, AST_DEC = 21, AST_SEP = 1,
            AST_MAG = Fin 12, AST_MAGERR = Fin 0.01, AST_COMP1_MAG = Fin 13,
            AST_COMP2_MAG = Fin 13.5\<rparr>) \<and>
   find_nearest_mjd_position (sort_key pos_MJD example_positions) 60001 = Inr (10, 21) \<and>
   find_nearest_object example_sep good_catalog 10 21 20 = Inr (Some (0, 1))"
proof -
  have ne: "example_positions \<noteq> []" by (simp add: example_positions_def)
  have m: "mjd (example_epoch t good_catalog ''R'') = t" for t
    by (simp add: example_epoch_def)
  note t = asteroid_coverage_nearest_sample [OF ne, where sep = example_sep and objs = example_comps]
  from t [where data = "example_epoch 59999 good_catalog ''R''"]
  have a: "asteroid_epoch example_sep (sort_key pos_MJD example_positions)
      (series_min (map pos_MJD (sort_key pos_MJD example_positions)))
      (series_max (map pos_MJD (sort_key pos_MJD example_positions))) example_comps
      (example_epoch 59999 good_catalog ''R'') = Inr None"
    by (simp add: m example_Min_Max)
  from t [where data = "example_epoch 60002 good_catalog ''R''"]
  have b: "asteroid_epoch example_sep (sort_key pos_MJD example_positions)
      (series_min (map pos_MJD (sort_key pos_MJD example_positions)))
      (series_max (map pos_MJD (sort_key pos_MJD example_positions))) example_comps
      (example_epoch 60002 good_catalog ''R'') = Inr None"
    by (simp add: m example_Min_Max)
  from t [where data = "example_epoch 60000 good_catalog ''R''"]
  have c: "asteroid_epoch example_sep (sort_key pos_MJD example_positions)
      (series_min (map pos_MJD (sort_key pos_MJD example_positions)))
      (series_max (map pos_MJD (sort_key pos_MJD example_positions))) example_comps
      (example_epoch 60000 good_catalog ''R'') =
     asteroid_match example_sep (sort_key pos_MJD example_positions) example_comps
      (example_epoch 60000 good_catalog ''R'')"
    by (simp add: m example_Min_Max)
  from t [where data = "example_epoch 60001 good_catalog ''R''"]
  have d: "asteroid_epoch example_sep (sort_key pos_MJD example_positions)
      (series_min (map pos_MJD (sort_key pos_MJD example_positions)))
      (series_max (map pos_MJD (sort_key pos_MJD example_positions))) example_comps
      (example_epoch 60001 good_catalog ''R'') =
     asteroid_match example_sep (sort_key pos_MJD example_positions) example_comps
      (example_epoch 60001 good_catalog ''R'')"
    by (simp add: m example_Min_Max)
  have e: "find_nearest_mjd_position (sort_key pos_MJD example_positions) 60001 = Inr (10, 21)"
    by (simp add: example_lookup)
  from ne a b c d e example_match_at_min example_match_late example_Min_Max(1) nearest_good(6)
  show ?thesis by simp
qed

lemma nearest_unmatched:
  assumes "dec_ok d" and "\<not> matched_within sep cat r d m"
  shows "find_nearest_object sep cat r d m = Inr None"
proof -
  from nearest_total [OF assms(1)] obtain v
    where v: "find_nearest_object sep cat r d m = Inr v" by blast
  show ?thesis
  proof (cases v)
    case None
    with v show ?thesis by simp
  next
    case (Some p)
    obtain i s where "p = (i, s)" by (cases p)
    with v Some nearest_matched [OF assms(1), of sep cat r m] assms(2)
    show ?thesis by blast
  qed
qed

text \<open>
  Claim C5.  Take an epoch that passed the coverage check, the position looked up for it
  in the ephemeris, and reference declinations in \<open>[-90, 90]\<close>.  The matching never
  raises, and it yields a record exactly when the nearest valid detection to comp1 is at
  most 5 arcseconds from it, the nearest valid detection to comp2 at most 5 arcseconds
  from it, the nearest valid detection to the looked-up position at most 20 arcseconds
  from it, and the values of these three rows are finite.  The record carries the
  looked-up position and the separation of the row matched there, which is at most 20.
  When no valid detection lies within 5 arcseconds of a comparison star, or none within
  20 arcseconds of the looked-up position, the epoch is skipped.
\<close>

theorem asteroid_match_tolerances:
  assumes pos: "find_nearest_mjd_position ps (mjd data) = Inr (a, d)"
    and ok1: "dec_ok (dec (comp1 objs))" and ok2: "dec_ok (dec (comp2 objs))" and ok3: "dec_ok d"
  shows "((\<exists>r. asteroid_match sep ps objs data = Inr (Some r)) \<longleftrightarrow>
           (\<exists>i1 i2 i3.
              nearest_valid sep (df data) (ra (comp1 objs)) (dec (comp1 objs)) i1 \<and>
              sep (ra (comp1 objs), dec (comp1 objs)) (sky_coord (df data ! i1)) \<le> 5 \<and>
              nearest_valid sep (df data) (ra (comp2 objs)) (dec (comp2 objs)) i2 \<and>
              sep (ra (comp2 objs), dec (comp2 objs)) (sky_coord (df data ! i2)) \<le> 5 \<and>
              nearest_valid sep (df data) a d i3 \<and>
              sep (a, d) (sky_coord (df data ! i3)) \<le> 20 \<and>
              rows_finite (df data ! i3) (df data ! i1) (df data ! i2))) \<and>
         (asteroid_match sep ps objs data = Inr None \<or>
            (\<exists>r. asteroid_match sep ps objs data = Inr (Some r))) \<and>
         (\<forall>r. asteroid_match sep ps objs data = Inr (Some r) \<longrightarrow>
            AST_RA r = a \<and> AST_DEC r = d \<and> AST_SEP r \<le> 20 \<and>
            (\<exists>i3. nearest_valid sep (df data) a d i3 \<and>
               AST_SEP r = sep (a, d) (sky_coord (df data ! i3))) \<and>
            matched_within sep (df data) (ra (comp1 objs)) (dec (comp1 objs)) 5 \<and>
            matched_within sep (df data) (ra (comp2 objs)) (dec (comp2 objs)) 5 \<and>
            matched_within sep (df data) a d 20) \<and>
         (\<not> matched_within sep (df data) (ra (comp1 objs)) (dec (comp1 objs)) 5 \<or>
          \<not> matched_within sep (df data) (ra (comp2 objs)) (dec (comp2 objs)) 5 \<or>
          \<not> matched_within sep (df data) a d 20 \<longrightarrow>
            asteroid_match sep ps objs data = Inr None)"
proof -
  let ?n1 = "find_nearest_object sep (df data) (ra (comp1 objs)) (dec (comp1 objs)) 5"
  let ?n2 = "find_nearest_object sep (df data) (ra (comp2 objs)) (dec (comp2 objs)) 5"
  let ?n3 = "find_nearest_object sep (df data) a d 20"
  from nearest_total [OF ok1] obtain v1 where v1: "?n1 = Inr v1" by blast
  from nearest_total [OF ok2] obtain v2 where v2: "?n2 = Inr v2" by blast
  from nearest_total [OF ok3] obtain v3 where v3: "?n3 = Inr v3" by blast
  have some: "\<exists>i1 i2 i3.
        nearest_valid sep (df data) (ra (comp1 objs)) (dec (comp1 objs)) i1 \<and>
        sep (ra (comp1 objs), dec (comp1 objs)) (sky_coord (df data ! i1)) \<le> 5 \<and>
        nearest_valid sep (df data) (ra (comp2 objs)) (dec (comp2 objs)) i2 \<and>
        sep (ra (comp2 objs), dec (comp2 objs)) (sky_coord (df data ! i2)) \<le> 5 \<and>
        nearest_valid sep (df data) a d i3 \<and>
        sep (a, d) (sky_coord (df data ! i3)) \<le> 20 \<and>
        rows_finite (df data ! i3) (df data ! i1) (df data ! i2)"
    and props: "AST_RA r = a \<and> AST_DEC r = d \<and> AST_SEP r \<le> 20 \<and>
        (\<exists>i3. nearest_valid sep (df data) a d i3 \<and>
           AST_SEP r = sep (a, d) (sky_coord (df data ! i3))) \<and>
        matched_within sep (df data) (ra (comp1 objs)) (dec (comp1 objs)) 5 \<and>
        matched_within sep (df data) (ra (comp2 objs)) (dec (comp2 objs)) 5 \<and>
        matched_within sep (df data) a d 20"
    if r: "asteroid_match sep ps objs data = Inr (Some r)" for r
  proof -
    from r obtain a' d' ai s c1 s1 c2 s2 where
      p: "find_nearest_mjd_position ps (mjd data) = Inr (a', d')"
      and n1: "?n1 = Inr (Some (c1, s1))" and n2: "?n2 = Inr (Some (c2, s2))"
      and n3: "find_nearest_object sep (df data) a' d' 20 = Inr (Some (ai, s))"
      and f: "rows_finite (df data ! ai) (df data ! c1) (df data ! c2)"
      and rr: "r = \<lparr>AST_MJD = mjd data, AST_RA = a', AST_DEC = d', AST_SEP = s,
             AST_MAG = MAG_AUTO (df data ! ai), AST_MAGERR = MAGERR_AUTO (df data ! ai),
             AST_COMP1_MAG = MAG_AUTO (df data ! c1), AST_COMP2_MAG = MAG_AUTO (df data ! c2)\<rparr>"
      unfolding asteroid_match_iff by blast
    from p pos have ad: "a' = a" "d' = d" by simp_all
    from n1 have e1: "nearest_valid sep (df data) (ra (comp1 objs)) (dec (comp1 objs)) c1"
      "sep (ra (comp1 objs), dec (comp1 objs)) (sky_coord (df data ! c1)) \<le> 5"
      unfolding nearest_iff [OF ok1] by auto
    from n2 have e2: "nearest_valid sep (df data) (ra (comp2 objs)) (dec (comp2 objs)) c2"
      "sep (ra (comp2 objs), dec (comp2 objs)) (sky_coord (df data ! c2)) \<le> 5"
      unfolding nearest_iff [OF ok2] by auto
    from n3 have e3: "nearest_valid sep (df data) a d ai"
      "s = sep (a, d) (sky_coord (df data ! ai))" "s \<le> 20"
      unfolding ad nearest_iff [OF ok3] by auto
    from e1 e2 e3 f show "\<exists>i1 i2 i3.
        nearest_valid sep (df data) (ra (comp1 objs)) (dec (comp1 objs)) i1 \<and>
        sep (ra (comp1 objs), dec (comp1 objs)) (sky_coord (df data ! i1)) \<le> 5 \<and>
        nearest_valid sep (df data) (ra (comp2 objs)) (dec (comp2 objs)) i2 \<and>
        sep (ra (comp2 objs), dec (comp2 objs)) (sky_coord (df data ! i2)) \<le> 5 \<and>
        nearest_valid sep (df data) a d i3 \<and>
        sep (a, d) (sky_coord (df data ! i3)) \<le> 20 \<and>
        rows_finite (df data ! i3) (df data ! i1) (df data ! i2)"
      by blast
    have m1: "matched_within sep (df data) (ra (comp1 objs)) (dec (comp1 objs)) 5"
      using n1 nearest_matched [OF ok1, of sep "df data" "ra (comp1 objs)" 5] by blast
    have m2: "matched_within sep (df data) (ra (comp2 objs)) (dec (comp2 objs)) 5"
      using n2 nearest_matched [OF ok2, of sep "df data" "ra (comp2 objs)" 5] by blast
    have m3: "matched_within sep (df data) a d 20"
      using n3 nearest_matched [OF ok3, of sep "df data" a 20] unfolding ad by blast
    from rr ad e3 m1 m2 m3 show "AST_RA r = a \<and> AST_DEC r = d \<and> AST_SEP r \<le> 20 \<and>
        (\<exists>i3. nearest_valid sep (df data) a d i3 \<and>
           AST_SEP r = sep (a, d) (sky_coord (df data ! i3))) \<and>
        matched_within sep (df data) (ra (comp1 objs)) (dec (comp1 objs)) 5 \<and>
        matched_within sep (df data) (ra (comp2 objs)) (dec (comp2 objs)) 5 \<and>
        matched_within sep (df data) a d 20"
      by auto
  qed
  have emits: "\<exists>r. asteroid_match sep ps objs data = Inr (Some r)"
    if "nearest_valid sep (df data) (ra (comp1 objs)) (dec (comp1 objs)) i1"
      "sep (ra (comp1 objs), dec (comp1 objs)) (sky_coord (df data ! i1)) \<le> 5"
      "nearest_valid sep (df data) (ra (comp2 objs)) (dec (comp2 objs)) i2"
      "sep (ra (comp2 objs), dec (comp2 objs)) (sky_coord (df data ! i2)) \<le> 5"
      "nearest_valid sep (df data) a d i3"
      "sep (a, d) (sky_coord (df data ! i3)) \<le> 20"
      "rows_finite (df data ! i3) (df data ! i1) (df data ! i2)" for i1 i2 i3
  proof -
    from that(1,2) have n1: "?n1 =
        Inr (Some (i1, sep (ra (comp1 objs), dec (comp1 objs)) (sky_coord (df data ! i1))))"
      unfolding nearest_iff [OF ok1] by simp
    from that(3,4) have n2: "?n2 =
        Inr (Some (i2, sep (ra (comp2 objs), dec (comp2 objs)) (sky_coord (df data ! i2))))"
      unfolding nearest_iff [OF ok2] by simp
    from that(5,6) have n3: "?n3 = Inr (Some (i3, sep (a, d) (sky_coord (df data ! i3))))"
      unfolding nearest_iff [OF ok3] by simp
    from asteroid_match_emits [OF pos n1 n2 n3] that(7) show ?thesis by simp
  qed
  have total: "asteroid_match sep ps objs data = Inr None \<or>
      (\<exists>r. asteroid_match sep ps objs data = Inr (Some r))"
  proof (cases "v1 = None \<or> v2 = None \<or> v3 = None")
    case True
    from asteroid_match_unmatched [OF pos v1 v2 v3 True] show ?thesis by simp
  next
    case False
    then obtain c1 s1 c2 s2 ai s where "v1 = Some (c1, s1)" "v2 = Some (c2, s2)" "v3 = Some (ai, s)"
      by auto
    with v1 v2 v3 asteroid_match_emits [OF pos, of sep objs c1 s1 c2 s2 ai s]
    show ?thesis by (auto split: if_splits)
  qed
  have skip: "asteroid_match sep ps objs data = Inr None"
    if "\<not> matched_within sep (df data) (ra (comp1 objs)) (dec (comp1 objs)) 5 \<or>
        \<not> matched_within sep (df data) (ra (comp2 objs)) (dec (comp2 objs)) 5 \<or>
        \<not> matched_within sep (df data) a d 20"
  proof -
    from that have "v1 = None \<or> v2 = None \<or> v3 = None"
      using nearest_unmatched [OF ok1, of sep "df data" "ra (comp1 objs)" 5]
        nearest_unmatched [OF ok2, of sep "df data" "ra (comp2 objs)" 5]
        nearest_unmatched [OF ok3, of sep "df data" a 20] v1 v2 v3
      by auto
    from asteroid_match_unmatched [OF pos v1 v2 v3 this] show ?thesis .
  qed
  from some props emits total skip show ?thesis by blast
qed

theorem asteroid_match_tolerances_witness:
  "find_nearest_mjd_position (sort_key pos_MJD example_positions)
     (mjd (example_epoch 60000 good_catalog ''R'')) = Inr (18, 20) \<and>
   dec_ok (dec (comp1 example_comps)) \<and> dec_ok (dec (comp2 example_comps)) \<and> dec_ok 20 \<and>
   asteroid_match example_sep (sort_key pos_MJD example_positions) example_comps
      (example_epoch 60000 good_catalog ''R'') =
     Inr (Some \<lparr>AST_MJD = 60000, AST_RA = 18, AST_DEC = 20, AST_SEP = 8,
            AST_MAG = Fin 12, AST_MAGERR = Fin 0.01, AST_COMP1_MAG = Fin 13,
            AST_COMP2_MAG = Fin 13.5\<rparr>) \<and>
   matched_within example_sep good_catalog 18 20 20 \<and>
   \<not> matched_within example_sep good_catalog 18 20 5 \<and>
   matched_within example_sep good_catalog 40 20 5 \<and>
   matched_within example_sep good_catalog 10 50 5"
proof -
  let ?e = "example_epoch 60000 good_catalog ''R''"
  have pos: "find_nearest_mjd_position (sort_key pos_MJD example_positions) (mjd ?e) = Inr (18, 20)"
    by (simp add: example_epoch_def example_lookup)
  have ok: "dec_ok (dec (comp1 example_comps))" "dec_ok (dec (comp2 example_comps))" "dec_ok 20"
    by (simp_all add: dec_ok_def example_comps_def)
  note t = asteroid_match_tolerances [OF pos ok, of example_sep]
  from t example_match_at_min
  have "matched_within example_sep good_catalog 40 20 5 \<and>
      matched_within example_sep good_catalog 10 50 5 \<and>
      matched_within example_sep good_catalog 18 20 20"
    by (simp add: example_epoch_def example_comps_def)
  moreover have "\<not> matched_within example_sep good_catalog 18 20 5"
    using nearest_matched [OF ok(3), of example_sep good_catalog 18 5] nearest_good(5) by simp
  ultimately show ?thesis using example_match_at_min pos ok by simp
qed

section \<open>The band filter\<close>














section \<open>Cross-comparison of two series\<close>

lemma for_each_map_filter:
  "(\<forall>x\<in>set xs. body x = Inr (g x)) \<Longrightarrow> for_each body xs = Inr (List.map_filter g xs)"
  by (induction xs) (auto simp: List.map_filter_simps split: option.splits)

lemma threshold_seconds: "x \<le> TIME_THRESHOLD \<longleftrightarrow> x * 24 * 3600 \<le> 180"
  by (simp add: TIME_THRESHOLD_def field_simps)

lemma match_row_nearest:
  assumes "other \<noteq> []"
  shows "\<exists>t\<in>set other.
           \<bar>other_MJD t - r_MJD r\<bar> = Min ((\<lambda>u. \<bar>other_MJD u - r_MJD r\<bar>) ` set other) \<and>
           match_row other r =
             Inr (if \<bar>other_MJD t - r_MJD r\<bar> * 24 * 3600 \<le> 180 then Some (r, t) else None)"
proof -
  let ?f = "\<lambda>u. \<bar>other_MJD u - r_MJD r\<bar>"
  let ?ds = "map ?f other"
  from assms have "?ds \<noteq> []" by simp
  then obtain k where k: "argmin ?ds = Some k"
    using argmin_None_iff [of ?ds] by (cases "argmin ?ds") auto
  have len: "length ?ds = length other" by simp
  from argmin_props [OF k] have kl: "k < length other"
    and kmin: "\<forall>j<length other. ?ds ! k \<le> ?ds ! j" unfolding len by blast+
  have le: "?f (other ! k) \<le> ?f u" if "u \<in> set other" for u
  proof -
    from that obtain j where j: "j < length other" "other ! j = u"
      by (auto simp: in_set_conv_nth)
    with kmin have "?ds ! k \<le> ?ds ! j" by blast
    with kl j show ?thesis by simp
  qed
  have mem: "other ! k \<in> set other" using kl by simp
  have "Min (?f ` set other) = ?f (other ! k)"
  proof (rule Min_eqI)
    show "finite (?f ` set other)" by simp
    show "?f (other ! k) \<in> ?f ` set other" using mem by blast
    show "?f (other ! k) \<le> y" if "y \<in> ?f ` set other" for y
      using that le by auto
  qed
  moreover have "match_row other r =
      Inr (if ?f (other ! k) * 24 * 3600 \<le> 180 then Some (r, other ! k) else None)"
    using k kl by (simp add: match_row_def iloc_def threshold_seconds)
  ultimately show ?thesis using mem by (intro bexI [of _ "other ! k"]) simp_all
qed

lemma map_fst_map_filter:
  "(\<forall>x\<in>set xs. \<forall>v. g x = Some v \<longrightarrow> fst v = x) \<Longrightarrow>
     map fst (List.map_filter g xs) = filter (\<lambda>x. g x \<noteq> None) xs"
  by (induction xs) (auto simp: List.map_filter_simps split: option.splits)

text \<open>
  Claim C7.  With a non-empty second series the matching loop returns a list of pairs.
  Its first components are, in time order, exactly the points of the first series whose
  smallest time distance to the second series is at most 180 seconds, and the partner of
  each is a point of the second series at that smallest distance: a point whose nearest
  partner is more than 180 seconds away is dropped, and no time is interpolated.
\<close>

theorem matching_pairs_window:
  assumes "other \<noteq> []"
  shows "\<exists>ps. matching_pairs results other = Inr ps \<and>
           map fst ps =
             filter (\<lambda>r. Min ((\<lambda>u. \<bar>other_MJD u - r_MJD r\<bar>) ` set other) * 24 * 3600 \<le> 180)
               (sort_key r_MJD results) \<and>
           (\<forall>(r, t)\<in>set ps. t \<in> set other \<and>
              \<bar>other_MJD t - r_MJD r\<bar> = Min ((\<lambda>u. \<bar>other_MJD u - r_MJD r\<bar>) ` set other) \<and>
              \<bar>other_MJD t - r_MJD r\<bar> * 24 * 3600 \<le> 180)"
proof -
  define so where "so = sort_key aij_JD_UTC other"
  define d where "d = (\<lambda>r :: measurement. Min ((\<lambda>u. \<bar>other_MJD u - r_MJD r\<bar>) ` set other))"
  have so_ne: "so \<noteq> []" using assms unfolding so_def by (metis length_sort length_0_conv)
  have so_set: "set so = set other" by (simp add: so_def)
  define g where "g = (\<lambda>r. case match_row so r of Inr v \<Rightarrow> v | Inl e \<Rightarrow> None)"
  have body: "match_row so r = Inr (g r)" for r
    using match_row_nearest [OF so_ne, of r] by (auto simp: g_def)
  have gchar: "\<exists>t\<in>set other. \<bar>other_MJD t - r_MJD r\<bar> = d r \<and>
      g r = (if d r * 24 * 3600 \<le> 180 then Some (r, t) else None)" for r
    using match_row_nearest [OF so_ne, of r] unfolding so_set d_def g_def by force
  have run: "matching_pairs results other = Inr (List.map_filter g (sort_key r_MJD results))"
    unfolding matching_pairs_def so_def [symmetric]
    by (rule for_each_map_filter) (simp add: body)
  have fst_g: "fst v = r" if "g r = Some v" for r v
    using gchar [of r] that by (auto split: if_splits)
  have some_iff: "g r \<noteq> None \<longleftrightarrow> d r * 24 * 3600 \<le> 180" for r
  proof -
    from gchar [of r] obtain t
      where "g r = (if d r * 24 * 3600 \<le> 180 then Some (r, t) else None)" by blast
    then show ?thesis by (cases "d r * 24 * 3600 \<le> 180") simp_all
  qed
  have a: "map fst (List.map_filter g (sort_key r_MJD results)) =
      filter (\<lambda>r. d r * 24 * 3600 \<le> 180) (sort_key r_MJD results)"
  proof -
    have "map fst (List.map_filter g (sort_key r_MJD results)) =
        filter (\<lambda>r. g r \<noteq> None) (sort_key r_MJD results)"
      by (rule map_fst_map_filter) (blast dest: fst_g)
    also have "(\<lambda>r. g r \<noteq> None) = (\<lambda>r. d r * 24 * 3600 \<le> 180)"
      by (rule ext) (rule some_iff)
    finally show ?thesis .
  qed
  have b: "t \<in> set other \<and> \<bar>other_MJD t - r_MJD r\<bar> = d r \<and> \<bar>other_MJD t - r_MJD r\<bar> * 24 * 3600 \<le> 180"
    if "(r, t) \<in> set (List.map_filter g (sort_key r_MJD results))" for r t
  proof -
    from that obtain x where "g x = Some (r, t)"
      by (auto simp: List.map_filter_def)
    with gchar [of x] show ?thesis by (auto split: if_splits)
  qed
  from run a b show ?thesis unfolding d_def by blast
qed


lemma example_other_time: "other_MJD (example_other s) = 60000 + s / 86400"
  by (simp add: other_MJD_def example_other_def)

lemma example_matching:
  "matching_pairs [example_measurement 60000] [example_other 100] =
     Inr [(example_measurement 60000, example_other 100)]"
  "matching_pairs [example_measurement 60000] [example_other 180] =
     Inr [(example_measurement 60000, example_other 180)]"
  by (simp_all add: matching_pairs_def match_row_def iloc_def TIME_THRESHOLD_def
        example_other_time)
     (simp_all add: example_measurement_def)

theorem matching_pairs_window_witness:
  "matching_pairs [example_measurement 60000] [example_other 100] =
     Inr [(example_measurement 60000, example_other 100)] \<and>
   matching_pairs [example_measurement 60000] [example_other 180] =
     Inr [(example_measurement 60000, example_other 180)] \<and>
   matching_pairs [example_measurement 60000] [example_other 200] = Inr [] \<and>
   \<bar>other_MJD (example_other 200) - r_MJD (example_measurement 60000)\<bar> * 24 * 3600 = 200"
proof -
  have ne: "[example_other 200] \<noteq> []" by simp
  have far: "\<bar>other_MJD (example_other 200) - r_MJD (example_measurement 60000)\<bar> * 24 * 3600 = 200"
    by (simp add: example_other_time example_measurement_def)
  from matching_pairs_window [OF ne, of "[example_measurement 60000]"] obtain ps
    where ps: "matching_pairs [example_measurement 60000] [example_other 200] = Inr ps"
      and fst: "map fst ps =
        filter (\<lambda>r. Min ((\<lambda>u. \<bar>other_MJD u - r_MJD r\<bar>) ` set [example_other 200]) * 24 * 3600 \<le> 180)
          (sort_key r_MJD [example_measurement 60000])"
    by blast
  from fst far have "map fst ps = []" by simp
  with ps have "matching_pairs [example_measurement 60000] [example_other 200] = Inr []" by simp
  with example_matching far show ?thesis by simp
qed

section \<open>Magnitude to flux\<close>

lemma flux_derivative:
  "((\<lambda>m. F0 * 10 powr (- m / 2.5)) has_real_derivative
      - (F0 * 10 powr (- mag / 2.5) * (ln 10 / 2.5))) (at mag)"
  by (auto intro!: derivative_eq_intros simp: field_simps)

text \<open>
  Claim C8.  \<open>mag_to_flux\<close> returns the flux \<open>reference_flux * 10^(-mag/2.5)\<close>, and with a
  magnitude error also the flux error \<open>flux * (ln 10 / 2.5) * mag_err\<close>, for every
  magnitude, error and reference flux; the factor of the error is the size of the
  derivative of the flux with respect to the magnitude.
\<close>

theorem mag_to_flux_closed_form:
  "mag_to_flux mag None F0 = Flux (F0 * 10 powr (- mag / 2.5)) \<and>
   mag_to_flux mag (Some e) F0 =
     FluxErr (F0 * 10 powr (- mag / 2.5)) (F0 * 10 powr (- mag / 2.5) * (ln 10 / 2.5) * e) \<and>
   ((\<lambda>m. F0 * 10 powr (- m / 2.5)) has_real_derivative
      - (F0 * 10 powr (- mag / 2.5) * (ln 10 / 2.5))) (at mag)"
  using flux_derivative [of F0 mag] by (simp add: mag_to_flux_def Let_def)

theorem mag_to_flux_closed_form_witness:
  "mag_to_flux 0 None 1 = Flux 1 \<and>
   mag_to_flux 0 (Some 0.5) 3 = FluxErr 3 (3 * (ln 10 / 2.5) * 0.5)"
proof -
  have p: "(10::real) powr (- 0 / 2.5) = 1" by simp
  from mag_to_flux_closed_form [of 0 1] have a: "mag_to_flux 0 None 1 = Flux 1"
    unfolding p by simp
  from mag_to_flux_closed_form [of 0 3 "0.5"]
  have b: "mag_to_flux 0 (Some 0.5) 3 = FluxErr 3 (3 * (ln 10 / 2.5) * 0.5)"
    unfolding p by simp
  from a b show ?thesis ..
qed

section \<open>Differential magnitude\<close>

lemma not_quadrature: "ec \<noteq> 0 \<Longrightarrow> et \<noteq> sqrt (et\<^sup>2 + ec\<^sup>2)" for et ec :: real
proof
  assume "ec \<noteq> 0" and e: "et = sqrt (et\<^sup>2 + ec\<^sup>2)"
  from e have "et\<^sup>2 = (sqrt (et\<^sup>2 + ec\<^sup>2))\<^sup>2" by simp
  then have "et\<^sup>2 = et\<^sup>2 + ec\<^sup>2" by simp
  with \<open>ec \<noteq> 0\<close> show False by simp
qed

text \<open>
  Claim C10.  The differential-magnitude table has one row per measurement; its
  \<open>diff_mag\<close> is \<open>TARGET_MAG - COMP1_MAG\<close> and its \<open>error_diff_mag\<close> is the target's
  magnitude error alone, which differs from the quadrature sum with any non-zero
  comparison-star error.
\<close>

theorem diffmag_error_is_target_error:
  "length (convert_to_differential_magnitude rows) = length rows \<and>
   map error_diff_mag (convert_to_differential_magnitude rows) = map r_TARGET_MAGERR rows \<and>
   map diff_mag (convert_to_differential_magnitude rows) =
     map (\<lambda>r. r_TARGET_MAG r - r_COMP1_MAG r) rows \<and>
   map JD_UTC (convert_to_differential_magnitude rows) = map (\<lambda>r. r_MJD r + 2400000.5) rows \<and>
   (\<forall>i<length rows. \<forall>ec. ec \<noteq> 0 \<longrightarrow>
      error_diff_mag (convert_to_differential_magnitude rows ! i) \<noteq>
        sqrt ((r_TARGET_MAGERR (rows ! i))\<^sup>2 + ec\<^sup>2))"
  using not_quadrature by (simp add: convert_to_differential_magnitude_def)

theorem diffmag_error_is_target_error_witness:
  "map error_diff_mag (convert_to_differential_magnitude [example_measurement 60000]) = [0.01] \<and>
   map diff_mag (convert_to_differential_magnitude [example_measurement 60000]) = [-1] \<and>
   error_diff_mag (convert_to_differential_magnitude [example_measurement 60000] ! 0) \<noteq>
     sqrt ((r_TARGET_MAGERR (example_measurement 60000))\<^sup>2 + 0.01\<^sup>2)"
proof -
  note t = diffmag_error_is_target_error [of "[example_measurement 60000]"]
  have e: "r_TARGET_MAGERR (example_measurement 60000) = 0.01"
    "r_TARGET_MAG (example_measurement 60000) - r_COMP1_MAG (example_measurement 60000) = -1"
    by (simp_all add: example_measurement_def)
  from t e have a: "map error_diff_mag (convert_to_differential_magnitude [example_measurement 60000]) = [0.01]"
    and b: "map diff_mag (convert_to_differential_magnitude [example_measurement 60000]) = [-1]"
    by simp_all
  from t have "\<forall>ec. ec \<noteq> 0 \<longrightarrow>
      error_diff_mag (convert_to_differential_magnitude [example_measurement 60000] ! 0) \<noteq>
        sqrt ((r_TARGET_MAGERR ([example_measurement 60000] ! 0))\<^sup>2 + ec\<^sup>2)"
    by simp
  then have "(0.01::real) \<noteq> 0 \<longrightarrow>
      error_diff_mag (convert_to_differential_magnitude [example_measurement 60000] ! 0) \<noteq>
        sqrt ((r_TARGET_MAGERR ([example_measurement 60000] ! 0))\<^sup>2 + 0.01\<^sup>2)"
    by (rule spec)
  then have c: "error_diff_mag (convert_to_differential_magnitude [example_measurement 60000] ! 0) \<noteq>
     sqrt ((r_TARGET_MAGERR (example_measurement 60000))\<^sup>2 + 0.01\<^sup>2)"
    by simp
  from a b c show ?thesis by blast
qed

section \<open>Time axis\<close>

lemma py_min_Fin: "py_min (Fin a) (Fin b) = Fin (min a b)"
  by (auto simp: py_min_def min_def)

lemma compare_time_offset_eq:
  assumes "results \<noteq> []" and "other \<noteq> []"
  shows "compare_time_offset results other =
     py_int (Fin (Min (r_MJD ` set results \<union> other_MJD ` set other)))"
proof -
  have "Min (r_MJD ` set results \<union> other_MJD ` set other) =
      min (Min (r_MJD ` set results)) (Min (other_MJD ` set other))"
    using assms by (intro Min_Un) auto
  with assms show ?thesis
    by (simp add: compare_time_offset_def series_min_def py_min_Fin)
qed

text \<open>
  Claim C9, as stated, fails for the single-table plot: for one measurement at MJD
  60000.5 the offset of \<open>plot_magnitude_ratios\<close> is 60000.5, not its floor, and the
  elapsed time is 0 hours, not 12.
\<close>

theorem time_offset_counterexample:
  "plot_time_offset [example_measurement 60000.5] = Fin 60000.5 \<and>
   plot_time_offset [example_measurement 60000.5] \<noteq> Fin (of_int \<lfloor>60000.5 :: real\<rfloor>) \<and>
   plot_time_hours [example_measurement 60000.5] = [0] \<and>
   plot_time_hours [example_measurement 60000.5] \<noteq> [(60000.5 - of_int \<lfloor>60000.5 :: real\<rfloor>) * 24]"
  by (simp add: plot_time_offset_def plot_time_hours_def series_min_def example_measurement_def)

text \<open>
  Claim C9, amended.  In the cross-comparison of two non-empty tables whose smallest time
  stamp is not negative, the time offset is the floor of the smallest time stamp of both
  series, and the elapsed time in hours is \<open>(mjd - time_offset) * 24\<close>.  In the plot of a
  single non-empty table the offset is the smallest time stamp itself, without a floor,
  and the elapsed time in hours is \<open>(mjd - time_offset) * 24\<close> again.
\<close>

theorem time_axis_normalization:
  "(results \<noteq> [] \<and> other \<noteq> [] \<and> 0 \<le> Min (r_MJD ` set results \<union> other_MJD ` set other) \<longrightarrow>
      compare_time_offset results other =
        Inr \<lfloor>Min (r_MJD ` set results \<union> other_MJD ` set other)\<rfloor>) \<and>
   compare_time_hours time_offset t = (t - of_int time_offset) * 24 \<and>
   (results \<noteq> [] \<longrightarrow>
      plot_time_offset results = Fin (Min (r_MJD ` set results)) \<and>
      plot_time_hours results = map (\<lambda>r. (r_MJD r - Min (r_MJD ` set results)) * 24) results)"
  by (auto simp: compare_time_offset_eq compare_time_hours_def plot_time_offset_def
      plot_time_hours_def series_min_def)

theorem time_axis_normalization_witness:
  "compare_time_offset [example_measurement 60000.25, example_measurement 60000.75]
      [example_other 43200] = Inr 60000 \<and>
   compare_time_hours 60000 60000.25 = 6 \<and>
   plot_time_offset [example_measurement 60000.25, example_measurement 60000.75] = Fin 60000.25 \<and>
   plot_time_hours [example_measurement 60000.25, example_measurement 60000.75] = [0, 12]"
proof -
  let ?rs = "[example_measurement 60000.25, example_measurement 60000.75]"
  let ?os = "[example_other 43200]"
  have m: "r_MJD (example_measurement t) = t" for t by (simp add: example_measurement_def)
  have o: "other_MJD (example_other 43200) = 60000.5"
    by (simp add: other_MJD_def example_other_def)
  have mn: "Min (r_MJD ` set ?rs \<union> other_MJD ` set ?os) = 60000.25"
    "Min (r_MJD ` set ?rs) = 60000.25"
    by (simp_all add: m o)
  have fl: "\<lfloor>60000.25 :: real\<rfloor> = 60000" by simp
  note t = time_axis_normalization [of ?rs ?os 60000 "60000.25"]
  from t have a: "compare_time_offset ?rs ?os = Inr 60000"
    unfolding mn fl by simp
  from t have b: "compare_time_hours 60000 60000.25 = 6" by simp
  from t have c: "plot_time_offset ?rs = Fin 60000.25"
    and d: "plot_time_hours ?rs = [0, 12]"
    unfolding mn by (simp_all add: m)
  from a b c d show ?thesis by blast
qed

end
